theory Spec2Isabelle
  imports Complex_Main "HOL-Library.Multiset"
begin

section \<open>Data model\<close>

text \<open>
  The enumerations of \<^verbatim>\<open>analyzers/ai.py\<close> (what the Judge may answer) and of
  \<^verbatim>\<open>constants.py\<close> (what the reports use). Two Python enums share member names;
  the members of \<^verbatim>\<open>IssueTypeEnum\<close> carry the prefix \<open>AI_\<close> and those of
  \<^verbatim>\<open>ConfidenceLevel\<close> the prefix \<open>CONF_\<close>.
\<close>

datatype IssueTypeEnum =
    AI_OBVIOUS_WRONG_ANSWER
  | AI_MISSED_ESCALATION
  | AI_DUMB_QUESTION
  | AI_REPETITIVE
  | AI_LACK_OF_ENCOURAGEMENT
  | AI_DEAD_END

datatype SeverityLevel = LOW | MEDIUM | HIGH

datatype ConfidenceLevel = CONF_LOW | CONF_MEDIUM | CONF_HIGH

datatype VerdictEnum = PASS | FAIL

datatype PositiveBehavior =
    FAST_OBVIOUS_ANSWER
  | CLEAR_ESCALATION
  | EMPATHETIC_TONE
  | GOOD_CONSTRAINTS_USE
  | CONCISE_STEPS

datatype IssueType =
    REPETITIVE
  | UNHELPFUL
  | TOO_MANY_TURNS
  | DEAD_END
  | NEGATIVE_RATING
  | OBVIOUS_WRONG_ANSWER
  | MISSED_ESCALATION
  | DUMB_QUESTION
  | LACK_OF_ENCOURAGEMENT
  | INTENT_MISRECOGNITION

text \<open>The \<^verbatim>\<open>.value\<close> of the two enums whose value is stored in an issue's details.\<close>

fun ConfidenceLevel_value :: "ConfidenceLevel \<Rightarrow> string" where
  "ConfidenceLevel_value CONF_LOW = ''low''"
| "ConfidenceLevel_value CONF_MEDIUM = ''medium''"
| "ConfidenceLevel_value CONF_HIGH = ''high''"

fun VerdictEnum_value :: "VerdictEnum \<Rightarrow> string" where
  "VerdictEnum_value PASS = ''PASS''"
| "VerdictEnum_value FAIL = ''FAIL''"

text \<open>
  The pydantic models of the Judge's answer. Field names are the source's, except where
  two models share one (\<^verbatim>\<open>messages\<close>, \<^verbatim>\<open>evidence\<close>) or the name is taken
  (\<^verbatim>\<open>type\<close>, \<^verbatim>\<open>id\<close>).
\<close>

record OnTopicRefusalIncorrect =
  refusal_messages :: "int list"
  refusal_evidence :: string
  why_incorrect :: string

record RefusalAssessment =
  off_topic_refusals_count :: int
  on_topic_refusals_incorrect :: "OnTopicRefusalIncorrect list"

record IssueFlag =
  flag_type :: IssueTypeEnum
  severity :: SeverityLevel
  confidence :: ConfidenceLevel
  flag_messages :: "int list"
  evidence :: string
  why_it_matters :: string
  recommended_fix :: string

record PositiveNote =
  behavior :: PositiveBehavior
  note_messages :: "int list"
  note_evidence :: string

record MetricsBreakdown =
  correctness_score :: int
  escalation_score :: int
  question_quality_score :: int
  progress_score :: int
  tone_encouragement_score :: int
  no_dead_end_score :: int

record ConversationAnalysisResult =
  overall_score :: int
  overall_verdict :: VerdictEnum
  summary :: string
  metrics :: MetricsBreakdown
  refusal_assessment :: RefusalAssessment
  flags :: "IssueFlag list"
  positives :: "PositiveNote list"
  next_best_step :: string
  suggested_handoff_message :: "string option"
  notes_for_training :: string
  prize_candidate :: bool
  prize_reason :: "string option"
  cycles_without_progress :: int
  has_clear_next_step :: bool

text \<open>The dataclasses of \<^verbatim>\<open>models.py\<close>.\<close>

record Message =
  role :: string
  content :: string
  timestamp :: "string option"

record Conversation =
  conv_id :: string
  messages :: "Message list"
  created_at :: string
  status :: "string option"
  rating :: "int option"

text \<open>
  The values of an issue's \<^verbatim>\<open>details\<close> dictionary; the dictionary is an association
  list in insertion order.
\<close>

datatype detail_value =
    VNone
  | VInt int
  | VStr string
  | VIntList "int list"

fun opt_str :: "string option \<Rightarrow> detail_value" where
  "opt_str None = VNone"
| "opt_str (Some s) = VStr s"

fun opt_int :: "int option \<Rightarrow> detail_value" where
  "opt_int None = VNone"
| "opt_int (Some n) = VInt n"

record ConversationIssue =
  conversation_id :: string
  issue_type :: IssueType
  details :: "(string \<times> detail_value) list"
  severity_score :: "int option"
  ai_reasoning :: "string option"
  excerpt :: "string option"

record QualityAnalysis =
  total_analyzed :: int
  repetitive :: "ConversationIssue list"
  unhelpful :: "ConversationIssue list"
  too_many_turns :: "ConversationIssue list"
  dead_end :: "ConversationIssue list"
  negative_rating :: "ConversationIssue list"
  obvious_wrong_answers :: "ConversationIssue list"
  missed_escalation :: "ConversationIssue list"
  dumb_questions :: "ConversationIssue list"
  lack_of_encouragement :: "ConversationIssue list"

section \<open>Projection of a judgment to issues\<close>

text \<open>
  \<^verbatim>\<open>dict.get(key, default)\<close> on a dictionary written as an association list.
\<close>

definition dict_get :: "('k \<times> 'v) list \<Rightarrow> 'k \<Rightarrow> 'v \<Rightarrow> 'v" where
  "dict_get d k dflt = (case map_of d k of None \<Rightarrow> dflt | Some v \<Rightarrow> v)"

definition issue_type_map :: "(IssueTypeEnum \<times> IssueType) list" where
  "issue_type_map =
     [(AI_OBVIOUS_WRONG_ANSWER, OBVIOUS_WRONG_ANSWER),
      (AI_MISSED_ESCALATION, MISSED_ESCALATION),
      (AI_DUMB_QUESTION, DUMB_QUESTION),
      (AI_REPETITIVE, REPETITIVE),
      (AI_LACK_OF_ENCOURAGEMENT, LACK_OF_ENCOURAGEMENT),
      (AI_DEAD_END, DEAD_END)]"

definition severity_map :: "(SeverityLevel \<times> int) list" where
  "severity_map = [(LOW, 3), (MEDIUM, 6), (HIGH, 9)]"

text \<open>The body of the loop of \<^verbatim>\<open>_result_to_issues\<close>: one issue for one flag.\<close>

definition flag_to_issue ::
  "Conversation \<Rightarrow> ConversationAnalysisResult \<Rightarrow> IssueFlag \<Rightarrow> ConversationIssue" where
  "flag_to_issue conversation result flag =
     (let issue_type' = dict_get issue_type_map (flag_type flag) UNHELPFUL;
          severity_score' = dict_get severity_map (severity flag) 5
      in \<lparr> conversation_id = conv_id conversation,
           issue_type = issue_type',
           details =
             [(''message_count'', VInt (int (length (messages conversation)))),
              (''status'', opt_str (status conversation)),
              (''rating'', opt_int (rating conversation)),
              (''overall_score'', VInt (overall_score result)),
              (''overall_verdict'', VStr (VerdictEnum_value (overall_verdict result))),
              (''messages_involved'', VIntList (flag_messages flag)),
              (''confidence'', VStr (ConfidenceLevel_value (confidence flag))),
              (''recommended_fix'', VStr (recommended_fix flag))],
           severity_score = Some severity_score',
           ai_reasoning = Some (why_it_matters flag @ '' | '' @ recommended_fix flag),
           excerpt = Some (evidence flag) \<rparr>)"

definition result_to_issues ::
  "Conversation \<Rightarrow> ConversationAnalysisResult \<Rightarrow> ConversationIssue list" where
  "result_to_issues conversation result =
     map (flag_to_issue conversation result) (flags result)"

section \<open>The analyzer's world\<close>

text \<open>
  What \<^verbatim>\<open>AIConversationAnalyzer\<close> reads and changes outside itself: the files of
  the directory \<^verbatim>\<open>conversation_analyses\<close> (path to content), the number of Judge
  invocations made so far, and the chronological trace of what happened (log records,
  cache reads and writes, Judge invocations, semaphore operations, sleeps of the retry
  decorator).
\<close>

datatype log_level = TRACE | DEBUG | INFO | WARNING | ERROR | SUCCESS

datatype event =
    Log log_level string
  | CacheRead string
  | CacheWrite string
  | JudgeInvoke string
  | SemAcquire
  | SemRelease
  | Sleep int

record world =
  files :: "string \<rightharpoonup> string"
  judge_calls :: nat
  trace :: "event list"

definition emit :: "event \<Rightarrow> world \<Rightarrow> world" where
  "emit e w = w\<lparr>trace := trace w @ [e]\<rparr>"

text \<open>
  The collaborators the analyzer does not implement. An exception is its message
  (\<open>Inl\<close>).
  \<^item> \<open>judge n conversation\<close>: the outcome of the structured completion request for the
    conversation when \<open>n\<close> requests were made before it (an answer validated against
    the schema, or any exception);
  \<^item> \<open>json_dump\<close>: the text \<^verbatim>\<open>json.dump(result.model_dump(mode="json"), ...)\<close> writes;
  \<^item> \<open>json_load_validate\<close>: \<^verbatim>\<open>json.load\<close> followed by \<^verbatim>\<open>model_validate\<close>;
  \<^item> \<open>disk\<close>: what goes wrong when the file at a path is opened for writing and
    written: nothing, the open fails (the file is untouched), or the write fails after
    the file was truncated and that many characters reached it;
  \<^item> \<open>path_join dir name\<close>: the file that pathlib's \<^verbatim>\<open>dir / name\<close> names. The join
    is not concatenation: an absolute \<^verbatim>\<open>name\<close> replaces \<^verbatim>\<open>dir\<close>, \<^verbatim>\<open>./\<close> and
    doubled slashes are dropped, and the file system resolves what is left, so two
    names can give one file. The files of a world are keyed by what \<open>path_join\<close>
    returns;
  \<^item> \<open>stat_error path\<close>: the \<^verbatim>\<open>OSError\<close> that \<^verbatim>\<open>Path.exists()\<close> raises for a path
    at which no file is found, when there is one (a name that is too long, a
    directory that may not be searched); \<open>None\<close> when \<^verbatim>\<open>exists()\<close> answers
    \<^verbatim>\<open>False\<close>.
\<close>

type_synonym exn = string

datatype write_fault = NoFault | OpenFails | FailsAfter nat

record collaborators =
  judge :: "nat \<Rightarrow> Conversation \<Rightarrow> exn + ConversationAnalysisResult"
  json_dump :: "ConversationAnalysisResult \<Rightarrow> string"
  json_load_validate :: "string \<Rightarrow> exn + ConversationAnalysisResult"
  disk :: "string \<Rightarrow> write_fault"
  path_join :: "string \<Rightarrow> string \<Rightarrow> string"
  stat_error :: "string \<Rightarrow> exn option"

definition DEFAULT_AI_MAX_RETRIES :: nat where
  "DEFAULT_AI_MAX_RETRIES = 4"

text \<open>\<^verbatim>\<open>self.output_dir / f"{conversation_id}.json"\<close>\<close>

definition cache_path :: "collaborators \<Rightarrow> string \<Rightarrow> string" where
  "cache_path env conversation_id' =
     path_join env ''conversation_analyses'' (conversation_id' @ ''.json'')"

section \<open>The result cache\<close>

text \<open>
  \<^verbatim>\<open>_load_cached_analysis\<close>. The check \<^verbatim>\<open>cache_path.exists()\<close> stands before the
  \<^verbatim>\<open>try\<close>: it answers \<^verbatim>\<open>True\<close> for a file that is there, and for a path with no
  file it answers \<^verbatim>\<open>False\<close> or raises, and what it raises leaves the function. When
  the file is there it is read and validated inside \<^verbatim>\<open>try\<close>, and any exception there
  is logged as a warning and answered with \<^verbatim>\<open>None\<close>.
\<close>

definition load_cached_analysis ::
  "collaborators \<Rightarrow> string \<Rightarrow> world \<Rightarrow> (exn + ConversationAnalysisResult option) \<times> world" where
  "load_cached_analysis env conversation_id' w =
     (case files w (cache_path env conversation_id') of
        None \<Rightarrow>
          (case stat_error env (cache_path env conversation_id') of
             Some e \<Rightarrow> (Inl e, w)
           | None \<Rightarrow> (Inr None, w))
      | Some data \<Rightarrow>
          (let w1 = emit (CacheRead conversation_id') w
           in case json_load_validate env data of
                Inr result \<Rightarrow> (Inr (Some result), emit (Log DEBUG conversation_id') w1)
              | Inl e \<Rightarrow> (Inr None, emit (Log WARNING conversation_id') w1)))"

text \<open>
  \<^verbatim>\<open>_save_conversation_analysis\<close>: the destination itself is opened with mode
  \<^verbatim>\<open>"w"\<close>, which truncates it, and the JSON text is written into it; any exception is
  logged as a warning and swallowed.
\<close>

definition save_conversation_analysis ::
  "collaborators \<Rightarrow> string \<Rightarrow> ConversationAnalysisResult \<Rightarrow> world \<Rightarrow> (exn + unit) \<times> world" where
  "save_conversation_analysis env conversation_id' result w =
     (let output_path = cache_path env conversation_id'
      in case disk env output_path of
           OpenFails \<Rightarrow> (Inr (), emit (Log WARNING conversation_id') w)
         | FailsAfter n \<Rightarrow>
             (Inr (),
              emit (Log WARNING conversation_id')
                (emit (CacheWrite conversation_id')
                   (w\<lparr>files := (files w)(output_path \<mapsto> take n (json_dump env result))\<rparr>)))
         | NoFault \<Rightarrow>
             (Inr (),
              emit (Log DEBUG conversation_id')
                (emit (CacheWrite conversation_id')
                   (w\<lparr>files := (files w)(output_path \<mapsto> json_dump env result)\<rparr>))))"

section \<open>Analysis of one conversation\<close>

definition invoke_judge ::
  "collaborators \<Rightarrow> Conversation \<Rightarrow> world \<Rightarrow> (exn + ConversationAnalysisResult) \<times> world" where
  "invoke_judge env conversation w =
     (judge env (judge_calls w) conversation,
      emit (JudgeInvoke (conv_id conversation)) (w\<lparr>judge_calls := Suc (judge_calls w)\<rparr>))"

text \<open>
  The \<^verbatim>\<open>async with self.semaphore:\<close> block of \<^verbatim>\<open>_analyze_single_conversation\<close>. The
  \<^verbatim>\<open>try\<close> inside it covers the request, the save and the conversion;
  \<^verbatim>\<open>except Exception\<close> logs an error and returns the empty list. The slot is given
  back when the block is left, on either path.
\<close>

definition fresh_analysis ::
  "collaborators \<Rightarrow> Conversation \<Rightarrow> world \<Rightarrow> (exn + ConversationIssue list) \<times> world" where
  "fresh_analysis env conversation w =
     (let cid = conv_id conversation;
          w1 = emit (Log TRACE cid) (emit SemAcquire w);
          (answer, w2) = invoke_judge env conversation w1
      in case answer of
           Inl e \<Rightarrow> (Inr [], emit SemRelease (emit (Log ERROR cid) w2))
         | Inr result \<Rightarrow>
             (let (saved, w3) = save_conversation_analysis env cid result (emit (Log TRACE cid) w2)
              in case saved of
                   Inl e \<Rightarrow> (Inr [], emit SemRelease (emit (Log ERROR cid) w3))
                 | Inr u \<Rightarrow> (Inr (result_to_issues conversation result), emit SemRelease w3)))"

text \<open>The undecorated body of \<^verbatim>\<open>_analyze_single_conversation\<close>.\<close>

definition analyze_single_conversation_body ::
  "collaborators \<Rightarrow> bool \<Rightarrow> Conversation \<Rightarrow> world \<Rightarrow> (exn + ConversationIssue list) \<times> world" where
  "analyze_single_conversation_body env no_cache conversation w =
     (let cid = conv_id conversation;
          (cached, w1) = (if \<not> no_cache then load_cached_analysis env cid w else (Inr None, w))
      in case cached of
           Inl e \<Rightarrow> (Inl e, w1)
         | Inr (Some cached_result) \<Rightarrow>
             (Inr (result_to_issues conversation cached_result), emit (Log TRACE cid) w1)
         | Inr None \<Rightarrow> fresh_analysis env conversation (emit (Log TRACE cid) w1))"

text \<open>
  The decorator \<^verbatim>\<open>@retry(stop=stop_after_attempt(n), wait=wait_exponential(...))\<close> of
  the tenacity library: the function is called; when the call raises and fewer than
  \<open>n\<close> attempts were made, the decorator sleeps and calls again; when the last attempt
  raises, it raises \<^verbatim>\<open>RetryError\<close>. \<open>retry_from m k\<close> makes attempt number \<open>k\<close> with
  \<open>m\<close> further attempts allowed after it.
\<close>

definition wait_exponential :: "int \<Rightarrow> int \<Rightarrow> int \<Rightarrow> nat \<Rightarrow> int" where
  "wait_exponential multiplier mn mx attempt_number =
     max (max 0 mn) (min (multiplier * 2 ^ (attempt_number - 1)) mx)"

primrec retry_from ::
  "nat \<Rightarrow> nat \<Rightarrow> (world \<Rightarrow> (exn + 'a) \<times> world) \<Rightarrow> world \<Rightarrow> (exn + 'a) \<times> world" where
  "retry_from 0 attempt_number fn w =
     (case fn w of
        (Inr v, w') \<Rightarrow> (Inr v, w')
      | (Inl e, w') \<Rightarrow> (Inl ''RetryError'', w'))"
| "retry_from (Suc m) attempt_number fn w =
     (case fn w of
        (Inr v, w') \<Rightarrow> (Inr v, w')
      | (Inl e, w') \<Rightarrow>
          retry_from m (Suc attempt_number) fn
            (emit (Sleep (wait_exponential 1 2 10 attempt_number)) w'))"

definition analyze_single_conversation ::
  "collaborators \<Rightarrow> bool \<Rightarrow> Conversation \<Rightarrow> world \<Rightarrow> (exn + ConversationIssue list) \<times> world" where
  "analyze_single_conversation env no_cache conversation w =
     retry_from (DEFAULT_AI_MAX_RETRIES - 1) 1
       (analyze_single_conversation_body env no_cache conversation) w"

text \<open>How often an event of a kind occurs in a trace.\<close>

definition judge_invocations :: "event list \<Rightarrow> nat" where
  "judge_invocations t = length (filter (\<lambda>e. case e of JudgeInvoke c \<Rightarrow> True | _ \<Rightarrow> False) t)"

definition cache_reads :: "event list \<Rightarrow> nat" where
  "cache_reads t = length (filter (\<lambda>e. case e of CacheRead c \<Rightarrow> True | _ \<Rightarrow> False) t)"

definition cache_writes :: "event list \<Rightarrow> nat" where
  "cache_writes t = length (filter (\<lambda>e. case e of CacheWrite c \<Rightarrow> True | _ \<Rightarrow> False) t)"

definition sleeps :: "event list \<Rightarrow> nat" where
  "sleeps t = length (filter (\<lambda>e. case e of Sleep d \<Rightarrow> True | _ \<Rightarrow> False) t)"

section \<open>Aggregation\<close>

text \<open>
  \<^verbatim>\<open>list.sort(key=..., reverse=True)\<close> and \<^verbatim>\<open>sorted(..., key=..., reverse=True)\<close>:
  descending by key and stable, that is, elements of equal key keep their order. Python
  obtains it by reversing, sorting stably in ascending order and reversing again.
\<close>

definition sort_reverse :: "('a \<Rightarrow> int) \<Rightarrow> 'a list \<Rightarrow> 'a list" where
  "sort_reverse key xs = rev (sort_key key (rev xs))"

text \<open>The key of \<^verbatim>\<open>analyze_async\<close>: \<^verbatim>\<open>lambda x: x.severity_score or 0\<close>.\<close>

definition severity_key :: "ConversationIssue \<Rightarrow> int" where
  "severity_key x =
     (case severity_score x of None \<Rightarrow> 0 | Some s \<Rightarrow> (if s = 0 then 0 else s))"

text \<open>The seven local lists of \<^verbatim>\<open>analyze_async\<close>.\<close>

record buckets =
  b_obvious_wrong_answers :: "ConversationIssue list"
  b_missed_escalation :: "ConversationIssue list"
  b_dumb_questions :: "ConversationIssue list"
  b_repetitive :: "ConversationIssue list"
  b_lack_of_encouragement :: "ConversationIssue list"
  b_dead_end :: "ConversationIssue list"
  b_unhelpful :: "ConversationIssue list"

definition empty_buckets :: buckets where
  "empty_buckets =
     \<lparr> b_obvious_wrong_answers = [], b_missed_escalation = [], b_dumb_questions = [],
       b_repetitive = [], b_lack_of_encouragement = [], b_dead_end = [], b_unhelpful = [] \<rparr>"

definition categorize_issue :: "buckets \<Rightarrow> ConversationIssue \<Rightarrow> buckets" where
  "categorize_issue b issue =
     (if issue_type issue = OBVIOUS_WRONG_ANSWER
        then b\<lparr>b_obvious_wrong_answers := b_obvious_wrong_answers b @ [issue]\<rparr>
      else if issue_type issue = MISSED_ESCALATION
        then b\<lparr>b_missed_escalation := b_missed_escalation b @ [issue]\<rparr>
      else if issue_type issue = DUMB_QUESTION
        then b\<lparr>b_dumb_questions := b_dumb_questions b @ [issue]\<rparr>
      else if issue_type issue = REPETITIVE
        then b\<lparr>b_repetitive := b_repetitive b @ [issue]\<rparr>
      else if issue_type issue = LACK_OF_ENCOURAGEMENT
        then b\<lparr>b_lack_of_encouragement := b_lack_of_encouragement b @ [issue]\<rparr>
      else if issue_type issue = DEAD_END
        then b\<lparr>b_dead_end := b_dead_end b @ [issue]\<rparr>
      else b\<lparr>b_unhelpful := b_unhelpful b @ [issue]\<rparr>)"

text \<open>The two nested loops: over the results, and over the issues of each.\<close>

definition categorize :: "ConversationIssue list list \<Rightarrow> buckets" where
  "categorize results = foldl (foldl categorize_issue) empty_buckets results"

text \<open>
  \<^verbatim>\<open>analyze_async\<close>. \<open>single\<close> is what awaiting
  \<^verbatim>\<open>self._analyze_single_conversation(conversation=convo)\<close> gives for a conversation;
  \<open>as_completed\<close> is the order in which \<^verbatim>\<open>asyncio.as_completed\<close> hands the finished
  tasks over. The progress display is left out.
\<close>

definition analyze_async ::
  "(Conversation \<Rightarrow> ConversationIssue list) \<Rightarrow>
   (ConversationIssue list list \<Rightarrow> ConversationIssue list list) \<Rightarrow>
   Conversation list \<Rightarrow> QualityAnalysis" where
  "analyze_async single as_completed conversations =
     (let tasks = map single conversations;
          results = as_completed tasks;
          b = categorize results
      in \<lparr> total_analyzed = int (length conversations),
           repetitive = sort_reverse severity_key (b_repetitive b),
           unhelpful = sort_reverse severity_key (b_unhelpful b),
           too_many_turns = [],
           dead_end = sort_reverse severity_key (b_dead_end b),
           negative_rating = [],
           obvious_wrong_answers = sort_reverse severity_key (b_obvious_wrong_answers b),
           missed_escalation = sort_reverse severity_key (b_missed_escalation b),
           dumb_questions = sort_reverse severity_key (b_dumb_questions b),
           lack_of_encouragement = sort_reverse severity_key (b_lack_of_encouragement b) \<rparr>)"

text \<open>The category lists of an analysis, in the order of the dataclass's fields.\<close>

definition categories :: "QualityAnalysis \<Rightarrow> ConversationIssue list list" where
  "categories qa =
     [repetitive qa, unhelpful qa, too_many_turns qa, dead_end qa, negative_rating qa,
      obvious_wrong_answers qa, missed_escalation qa, dumb_questions qa,
      lack_of_encouragement qa]"

section \<open>Serialization of the aggregate\<close>

text \<open>
  The dictionary \<^verbatim>\<open>QualityAnalysis.to_dict\<close> returns: ten keys that are always there,
  and the keys \<^verbatim>\<open>summary\<close> and \<^verbatim>\<open>top_offenders\<close> that are there only under the
  guard. \<^verbatim>\<open>asdict(issue)\<close> is the issue itself. The mean is a Python float, the
  quotient of two integers; here it is the exact quotient.
\<close>

record Summary =
  conversations_with_issues :: nat
  average_severity :: rat
  total_issues_found :: nat

record AnalysisDict =
  dict_total_analyzed :: int
  dict_repetitive :: "ConversationIssue list"
  dict_unhelpful :: "ConversationIssue list"
  dict_too_many_turns :: "ConversationIssue list"
  dict_dead_end :: "ConversationIssue list"
  dict_negative_rating :: "ConversationIssue list"
  dict_obvious_wrong_answers :: "ConversationIssue list"
  dict_missed_escalation :: "ConversationIssue list"
  dict_dumb_questions :: "ConversationIssue list"
  dict_lack_of_encouragement :: "ConversationIssue list"
  dict_summary :: "Summary option"
  dict_top_offenders :: "ConversationIssue list option"

definition all_issues :: "QualityAnalysis \<Rightarrow> ConversationIssue list" where
  "all_issues qa =
     repetitive qa @ unhelpful qa @ too_many_turns qa @ dead_end qa @ negative_rating qa
     @ obvious_wrong_answers qa @ missed_escalation qa @ dumb_questions qa
     @ lack_of_encouragement qa"

text \<open>\<^verbatim>\<open>x.severity_score if x.severity_score is not None else 0\<close>\<close>

definition score_or_zero :: "ConversationIssue \<Rightarrow> int" where
  "score_or_zero x = (case severity_score x of None \<Rightarrow> 0 | Some s \<Rightarrow> s)"

definition is_scored :: "ConversationIssue \<Rightarrow> bool" where
  "is_scored x = (severity_score x \<noteq> None)"

definition summary_of :: "ConversationIssue list \<Rightarrow> Summary" where
  "summary_of all =
     (let scored_issues = filter is_scored all
      in \<lparr> conversations_with_issues = card (set (map conversation_id all)),
           average_severity =
             (if scored_issues \<noteq> []
                then of_int (sum_list (map score_or_zero scored_issues))
                     / of_nat (length scored_issues)
              else 0),
           total_issues_found = length all \<rparr>)"

definition top_offenders_of :: "ConversationIssue list \<Rightarrow> ConversationIssue list" where
  "top_offenders_of all = take 20 (sort_reverse score_or_zero (filter is_scored all))"

definition to_dict :: "QualityAnalysis \<Rightarrow> AnalysisDict" where
  "to_dict qa =
     (let all = all_issues qa;
          guard = (all \<noteq> [] \<and> list_ex is_scored all)
      in \<lparr> dict_total_analyzed = total_analyzed qa,
           dict_repetitive = repetitive qa,
           dict_unhelpful = unhelpful qa,
           dict_too_many_turns = too_many_turns qa,
           dict_dead_end = dead_end qa,
           dict_negative_rating = negative_rating qa,
           dict_obvious_wrong_answers = obvious_wrong_answers qa,
           dict_missed_escalation = missed_escalation qa,
           dict_dumb_questions = dumb_questions qa,
           dict_lack_of_encouragement = lack_of_encouragement qa,
           dict_summary = (if guard then Some (summary_of all) else None),
           dict_top_offenders = (if guard then Some (top_offenders_of all) else None) \<rparr>)"

section \<open>The admission gate\<close>

text \<open>
  The tasks of \<^verbatim>\<open>analyze_async\<close> run interleaved, and each is at one of these places
  of \<^verbatim>\<open>_analyze_single_conversation\<close>:
  \<^item> \<open>Created\<close>: not started;
  \<^item> \<open>AwaitingSlot\<close>: the cache gave nothing, the task stands at
    \<^verbatim>\<open>async with self.semaphore\<close>;
  \<^item> \<open>HoldingSlot\<close>: inside the block, building the prompt;
  \<^item> \<open>AwaitingJudge\<close>: the request is sent and not answered;
  \<^item> \<open>Persisting\<close>: the answer is there; the save and the conversion run, still inside
    the block;
  \<^item> \<open>Finished\<close>: returned.
  \<^verbatim>\<open>asyncio.Semaphore(max_concurrency)\<close> is a counter: acquiring needs it positive and
  decrements it, leaving the block increments it.
\<close>

datatype phase = Created | AwaitingSlot | HoldingSlot | AwaitingJudge | Persisting | Finished

record governor =
  sem_value :: nat
  phases :: "phase list"

text \<open>
  One move of task \<open>i\<close>. \<open>Begin i hit\<close> is the cache check (\<open>hit\<close>: a cached result was
  used), \<open>Answer i ok\<close> the end of the request (\<open>ok\<close>: it returned, otherwise it raised
  and the handler returns the empty list, leaving the block).
\<close>

datatype action = Begin nat bool | Acquire nat | Invoke nat | Answer nat bool | Leave nat

fun step :: "action \<Rightarrow> governor \<Rightarrow> governor option" where
  "step (Begin i hit) g =
     (if i < length (phases g) \<and> phases g ! i = Created
        then Some (g\<lparr>phases := (phases g)[i := (if hit then Finished else AwaitingSlot)]\<rparr>)
      else None)"
| "step (Acquire i) g =
     (if i < length (phases g) \<and> phases g ! i = AwaitingSlot \<and> 0 < sem_value g
        then Some (g\<lparr>sem_value := sem_value g - 1, phases := (phases g)[i := HoldingSlot]\<rparr>)
      else None)"
| "step (Invoke i) g =
     (if i < length (phases g) \<and> phases g ! i = HoldingSlot
        then Some (g\<lparr>phases := (phases g)[i := AwaitingJudge]\<rparr>)
      else None)"
| "step (Answer i ok) g =
     (if i < length (phases g) \<and> phases g ! i = AwaitingJudge
        then (if ok then Some (g\<lparr>phases := (phases g)[i := Persisting]\<rparr>)
              else Some (g\<lparr>sem_value := sem_value g + 1, phases := (phases g)[i := Finished]\<rparr>))
      else None)"
| "step (Leave i) g =
     (if i < length (phases g) \<and> phases g ! i = Persisting
        then Some (g\<lparr>sem_value := sem_value g + 1, phases := (phases g)[i := Finished]\<rparr>)
      else None)"

fun run :: "action list \<Rightarrow> governor \<Rightarrow> governor option" where
  "run [] g = Some g"
| "run (a # as) g = (case step a g of None \<Rightarrow> None | Some g' \<Rightarrow> run as g')"

definition initial :: "nat \<Rightarrow> nat \<Rightarrow> governor" where
  "initial max_concurrency n = \<lparr> sem_value = max_concurrency, phases = replicate n Created \<rparr>"

fun holds_slot :: "phase \<Rightarrow> bool" where
  "holds_slot HoldingSlot = True"
| "holds_slot AwaitingJudge = True"
| "holds_slot Persisting = True"
| "holds_slot p = False"

definition slots_held :: "governor \<Rightarrow> nat" where
  "slots_held g = length (filter holds_slot (phases g))"

definition in_flight :: "governor \<Rightarrow> nat" where
  "in_flight g = length (filter (\<lambda>p. p = AwaitingJudge) (phases g))"

section \<open>Example inputs\<close>

text \<open>
  A conversation whose judgment carries one high-severity missed escalation and one
  medium-severity dead end, and collaborators that answer, fail, or fail once.
\<close>

definition example_flag_high :: IssueFlag where
  "example_flag_high =
     \<lparr> flag_type = AI_MISSED_ESCALATION, severity = HIGH, confidence = CONF_HIGH,
       flag_messages = [1, 2], evidence = ''please try again'',
       why_it_matters = ''user is blocked'', recommended_fix = ''hand off to support'' \<rparr>"

definition example_flag_medium :: IssueFlag where
  "example_flag_medium =
     \<lparr> flag_type = AI_DEAD_END, severity = MEDIUM, confidence = CONF_LOW,
       flag_messages = [3], evidence = ''I cannot help'',
       why_it_matters = ''no next step'', recommended_fix = ''offer the form'' \<rparr>"

definition example_result :: ConversationAnalysisResult where
  "example_result =
     \<lparr> overall_score = 35, overall_verdict = FAIL, summary = ''bot kept churning'',
       metrics = \<lparr> correctness_score = 5, escalation_score = 5, question_quality_score = 10,
                   progress_score = 5, tone_encouragement_score = 8, no_dead_end_score = 2 \<rparr>,
       refusal_assessment = \<lparr> off_topic_refusals_count = 0, on_topic_refusals_incorrect = [] \<rparr>,
       flags = [example_flag_high, example_flag_medium],
       positives = [],
       next_best_step = ''escalate'',
       suggested_handoff_message = None,
       notes_for_training = ''escalate sooner'',
       prize_candidate = True,
       prize_reason = Some ''missed escalation'',
       cycles_without_progress = 2,
       has_clear_next_step = False \<rparr>"

definition example_conversation :: Conversation where
  "example_conversation =
     \<lparr> conv_id = ''c1'',
       messages = [\<lparr> role = ''user'', content = ''cannot log in'', timestamp = None \<rparr>,
                   \<lparr> role = ''assistant'', content = ''please try again'', timestamp = None \<rparr>],
       created_at = ''2025-01-01T00:00:00Z'', status = Some ''open'', rating = None \<rparr>"

text \<open>
  The two cases of pathlib's join that the examples use: an absolute name replaces the
  directory, and a leading \<^verbatim>\<open>./\<close> of the name is dropped.
\<close>

definition example_join :: "string \<Rightarrow> string \<Rightarrow> string" where
  "example_join dir name =
     (if take 1 name = ''/'' then name
      else dir @ ''/'' @ (if take 2 name = ''./'' then drop 2 name else name))"

definition empty_world :: world where
  "empty_world = \<lparr> files = Map.empty, judge_calls = 0, trace = [] \<rparr>"

text \<open>A Judge whose first request times out and whose later requests answer.\<close>

definition flaky_env :: collaborators where
  "flaky_env =
     \<lparr> judge = (\<lambda>n c. if n = 0 then Inl ''timeout'' else Inr example_result),
       json_dump = (\<lambda>r. ''{overall_score: 35, ...}''),
       json_load_validate = (\<lambda>s. if s = ''{overall_score: 35, ...}'' then Inr example_result else Inl ''invalid''),
       disk = (\<lambda>p. NoFault),
       path_join = example_join, stat_error = (\<lambda>p. None) \<rparr>"

definition failing_env :: collaborators where
  "failing_env =
     \<lparr> judge = (\<lambda>n c. Inl ''rate limit''),
       json_dump = (\<lambda>r. ''{overall_score: 35, ...}''),
       json_load_validate = (\<lambda>s. if s = ''{overall_score: 35, ...}'' then Inr example_result else Inl ''invalid''),
       disk = (\<lambda>p. NoFault),
       path_join = example_join, stat_error = (\<lambda>p. None) \<rparr>"

definition answering_env :: collaborators where
  "answering_env =
     \<lparr> judge = (\<lambda>n c. Inr example_result),
       json_dump = (\<lambda>r. ''{overall_score: 35, ...}''),
       json_load_validate = (\<lambda>s. if s = ''{overall_score: 35, ...}'' then Inr example_result else Inl ''invalid''),
       disk = (\<lambda>p. NoFault),
       path_join = example_join, stat_error = (\<lambda>p. None) \<rparr>"

text \<open>A disk on which every write fails after three characters.\<close>

definition full_disk_env :: collaborators where
  "full_disk_env =
     \<lparr> judge = (\<lambda>n c. Inr example_result),
       json_dump = (\<lambda>r. ''{overall_score: 35, ...}''),
       json_load_validate = (\<lambda>s. if s = ''{overall_score: 35, ...}'' then Inr example_result else Inl ''invalid''),
       disk = (\<lambda>p. FailsAfter 3),
       path_join = example_join, stat_error = (\<lambda>p. None) \<rparr>"

text \<open>
  Worlds in which the file of conversation \<^verbatim>\<open>c1\<close> holds its judgment, a fragment,
  or an older judgment.
\<close>

definition cached_world :: world where
  "cached_world =
     \<lparr> files = [''conversation_analyses/c1.json'' \<mapsto> ''{overall_score: 35, ...}''], judge_calls = 0, trace = [] \<rparr>"

definition corrupt_world :: world where
  "corrupt_world =
     \<lparr> files = [''conversation_analyses/c1.json'' \<mapsto> ''{overall_sc''], judge_calls = 0, trace = [] \<rparr>"

definition stale_world :: world where
  "stale_world =
     \<lparr> files = [''conversation_analyses/c1.json'' \<mapsto> ''{overall_score: 90, ...}''], judge_calls = 0, trace = [] \<rparr>"

text \<open>
  A file system on which the existence check of a path longer than 255 characters
  raises, and a conversation whose id has 300 characters.
\<close>

definition long_name_env :: collaborators where
  "long_name_env =
     \<lparr> judge = (\<lambda>n c. Inr example_result),
       json_dump = (\<lambda>r. ''{overall_score: 35, ...}''),
       json_load_validate = (\<lambda>s. if s = ''{overall_score: 35, ...}'' then Inr example_result else Inl ''invalid''),
       disk = (\<lambda>p. NoFault),
       path_join = example_join,
       stat_error = (\<lambda>p. if 255 < length p then Some ''OSError: [Errno 36] File name too long''
                         else None) \<rparr>"

definition long_conversation :: Conversation where
  "long_conversation =
     \<lparr> conv_id = replicate 300 (CHR ''a''),
       messages = [\<lparr> role = ''user'', content = ''cannot log in'', timestamp = None \<rparr>],
       created_at = ''2025-01-03T00:00:00Z'', status = None, rating = None \<rparr>"

definition example_flag_low :: IssueFlag where
  "example_flag_low =
     \<lparr> flag_type = AI_MISSED_ESCALATION, severity = LOW, confidence = CONF_MEDIUM,
       flag_messages = [0], evidence = ''try the help page'',
       why_it_matters = ''user waits longer'', recommended_fix = ''name the contact'' \<rparr>"

text \<open>
  A Judge that finds one low-severity missed escalation in conversation \<^verbatim>\<open>c2\<close> and
  answers with the example judgment for every other conversation.
\<close>

definition graded_env :: collaborators where
  "graded_env =
     \<lparr> judge = (\<lambda>n c. Inr (if conv_id c = ''c2'' then example_result\<lparr>flags := [example_flag_low]\<rparr>
                           else example_result)),
       json_dump = (\<lambda>r. ''{overall_score: 35, ...}''),
       json_load_validate = (\<lambda>s. if s = ''{overall_score: 35, ...}'' then Inr example_result else Inl ''invalid''),
       disk = (\<lambda>p. NoFault),
       path_join = example_join, stat_error = (\<lambda>p. None) \<rparr>"

definition example_single :: "Conversation \<Rightarrow> ConversationIssue list" where
  "example_single c =
     (case fst (analyze_single_conversation graded_env True c empty_world) of
        Inr v \<Rightarrow> v
      | Inl e \<Rightarrow> [])"

definition other_conversation :: Conversation where
  "other_conversation =
     \<lparr> conv_id = ''c2'',
       messages = [\<lparr> role = ''user'', content = ''where is my report'', timestamp = None \<rparr>],
       created_at = ''2025-01-02T00:00:00Z'', status = None, rating = Some 2 \<rparr>"

text \<open>
  Judgments that tie at the cut-off of the top offenders: twenty high-severity flags
  for conversation \<^verbatim>\<open>c1\<close>, one for any other conversation.
\<close>

definition example_judgments :: "Conversation \<Rightarrow> ConversationAnalysisResult" where
  "example_judgments c =
     (if conv_id c = ''c1'' then example_result\<lparr>flags := replicate 20 example_flag_high\<rparr>
      else example_result\<lparr>flags := [example_flag_high]\<rparr>)"

definition judged_single :: "Conversation \<Rightarrow> ConversationIssue list" where
  "judged_single c = result_to_issues c (example_judgments c)"

text \<open>
  What the rule-based \<^verbatim>\<open>ConversationAnalyzer.analyze\<close> builds for the second
  conversation (rating 2, below the threshold 3): one issue without a severity score.
\<close>

definition rule_based_analysis :: QualityAnalysis where
  "rule_based_analysis =
     \<lparr> total_analyzed = 1, repetitive = [], unhelpful = [], too_many_turns = [], dead_end = [],
       negative_rating =
         [\<lparr> conversation_id = ''c2'', issue_type = NEGATIVE_RATING,
            details = [(''rating'', VInt 2), (''message_count'', VInt 1)],
            severity_score = None, ai_reasoning = None, excerpt = None \<rparr>],
       obvious_wrong_answers = [], missed_escalation = [], dumb_questions = [],
       lack_of_encouragement = [] \<rparr>"

section \<open>Properties of the projection\<close>

lemma severity_map_get:
  "dict_get severity_map s 5 = (case s of LOW \<Rightarrow> 3 | MEDIUM \<Rightarrow> 6 | HIGH \<Rightarrow> 9)"
  by (cases s) (simp_all add: dict_get_def severity_map_def)

lemma flag_to_issue_score:
  "severity_score (flag_to_issue c r f) =
     Some (case severity f of LOW \<Rightarrow> 3 | MEDIUM \<Rightarrow> 6 | HIGH \<Rightarrow> 9)"
  by (simp add: flag_to_issue_def Let_def severity_map_get)

text \<open>
  C7. The issues projected from a judgment are its flags in order, one issue per flag,
  and the severity score of each issue is exactly 3 for a flag of severity low, 6 for
  medium and 9 for high: the default 5 of the lookup is never used.
\<close>

theorem result_to_issues_severity_score:
  "map severity_score (result_to_issues c r) =
     map (\<lambda>f. Some (case severity f of LOW \<Rightarrow> 3 | MEDIUM \<Rightarrow> 6 | HIGH \<Rightarrow> 9)) (flags r)"
  by (simp add: result_to_issues_def flag_to_issue_score)

section \<open>Properties of the analysis of one conversation\<close>

lemmas analysis_defs =
  analyze_single_conversation_body_def fresh_analysis_def load_cached_analysis_def
  save_conversation_analysis_def invoke_judge_def emit_def Let_def

lemma retry_from_no_raise:
  "fst (fn w) = Inr v \<Longrightarrow> retry_from m k fn w = fn w"
  by (cases m; cases "fn w") (auto)

lemma retry_from_result:
  "retry_from m k fn w = (Inr v, w') \<Longrightarrow> \<exists>w0. fn w0 = (Inr v, w')"
proof (induction m arbitrary: k w)
  case 0
  then show ?case
    by (auto split: prod.splits sum.splits)
next
  case (Suc m)
  show ?case
  proof (cases "fn w")
    case (Pair r w1)
    show ?thesis
    proof (cases r)
      case (Inl e)
      with Pair Suc.prems have "retry_from m (Suc k) fn
          (emit (Sleep (wait_exponential 1 2 10 k)) w1) = (Inr v, w')"
        by simp
      then show ?thesis
        by (rule Suc.IH)
    next
      case (Inr u)
      with Pair Suc.prems show ?thesis
        by auto
    qed
  qed
qed

text \<open>
  The body raises only what the existence check raises: not with the cache bypassed,
  not for a file that is there, not when the check answers.
\<close>

lemma body_returns:
  assumes "no_cache \<or> files w (cache_path env (conv_id c)) \<noteq> None
    \<or> stat_error env (cache_path env (conv_id c)) = None"
  shows "\<exists>v. fst (analyze_single_conversation_body env no_cache c w) = Inr v"
  using assms
  by (auto simp: analysis_defs
      split: option.splits sum.splits prod.splits write_fault.splits if_splits)

lemma analyze_single_conversation_is_body:
  assumes "no_cache \<or> files w (cache_path env (conv_id c)) \<noteq> None
    \<or> stat_error env (cache_path env (conv_id c)) = None"
  shows "analyze_single_conversation env no_cache c w
    = analyze_single_conversation_body env no_cache c w"
  using body_returns [OF assms]
  by (auto simp: analyze_single_conversation_def retry_from_no_raise)

lemma body_raise_keeps_world:
  "fst (analyze_single_conversation_body env no_cache c w) = Inl e \<Longrightarrow>
   snd (analyze_single_conversation_body env no_cache c w) = w"
  by (auto simp: analysis_defs
      split: option.splits sum.splits prod.splits write_fault.splits if_splits)

lemma body_judge_calls:
  "judge_calls (snd (analyze_single_conversation_body env no_cache c w)) \<le> Suc (judge_calls w)"
  by (auto simp: analysis_defs
      split: option.splits sum.splits prod.splits write_fault.splits if_splits)

lemma retry_body_judge_calls:
  "judge_calls (snd (retry_from m k (analyze_single_conversation_body env no_cache c) w))
     \<le> Suc (judge_calls w)"
proof (induction m arbitrary: k w)
  case 0
  show ?case
    using body_judge_calls [of env no_cache c w]
    by (auto split: prod.splits sum.splits)
next
  case (Suc m)
  show ?case
  proof (cases "analyze_single_conversation_body env no_cache c w")
    case (Pair r w1)
    show ?thesis
    proof (cases r)
      case (Inl e)
      with Pair body_raise_keeps_world [of env no_cache c w e] have "w1 = w"
        by simp
      with Pair Inl Suc.IH [of "Suc k" "emit (Sleep (wait_exponential 1 2 10 k)) w"]
      show ?thesis
        by (simp add: emit_def)
    next
      case (Inr u)
      with Pair body_judge_calls [of env no_cache c w] show ?thesis
        by simp
    qed
  qed
qed

text \<open>Whatever happens, at most one request is made to the Judge for a conversation.\<close>

lemma judge_invoked_at_most_once:
  "judge_calls (snd (analyze_single_conversation env no_cache c w)) \<le> Suc (judge_calls w)"
  unfolding analyze_single_conversation_def by (rule retry_body_judge_calls)

lemma example_join_simple [simp]:
  "example_join ''conversation_analyses'' ''c1.json'' = ''conversation_analyses/c1.json''"
  "example_join ''conversation_analyses'' ''c2.json'' = ''conversation_analyses/c2.json''"
  "example_join ''conversation_analyses'' ''./c1.json'' = ''conversation_analyses/c1.json''"
  by (simp_all add: example_join_def)

lemma example_paths [simp]:
  "path_join flaky_env = example_join" "path_join failing_env = example_join"
  "path_join answering_env = example_join" "path_join full_disk_env = example_join"
  "path_join graded_env = example_join" "path_join long_name_env = example_join"
  by (simp_all add: flaky_env_def failing_env_def answering_env_def full_disk_env_def
      graded_env_def long_name_env_def)

text \<open>
  C1. The claim: an exception of the Judge is retried, up to four attempts with growing
  pauses, before the conversation is given up with zero issues. The decorator sees only
  what the decorated function raises, and the function's own handler turns every
  exception of the request into the empty list. With a Judge whose first request times
  out and whose second request would answer, and no cached record: one request is made,
  no pause is taken, and the conversation ends with zero issues.
\<close>

theorem judge_exception_not_retried:
  "judge flaky_env 0 example_conversation = Inl ''timeout'' \<and>
   judge flaky_env 1 example_conversation = Inr example_result \<and>
   fst (analyze_single_conversation flaky_env True example_conversation empty_world) = Inr [] \<and>
   judge_calls (snd (analyze_single_conversation flaky_env True example_conversation empty_world)) = 1 \<and>
   sleeps (trace (snd (analyze_single_conversation flaky_env True example_conversation empty_world))) = 0"
  by (simp add: analyze_single_conversation_def DEFAULT_AI_MAX_RETRIES_def eval_nat_numeral
      analysis_defs flaky_env_def example_conversation_def empty_world_def sleeps_def)

text \<open>
  C10. With the cache in use and a file for the conversation that loads and validates,
  the analysis returns the issues of the cached result, makes no request to the Judge,
  writes nothing, and leaves every file as it was.
\<close>

theorem cache_hit_skips_judge_and_save:
  assumes "files w (cache_path env (conv_id c)) = Some data"
    and "json_load_validate env data = Inr cached_result"
  shows "fst (analyze_single_conversation env False c w) = Inr (result_to_issues c cached_result)
    \<and> judge_calls (snd (analyze_single_conversation env False c w)) = judge_calls w
    \<and> judge_invocations (trace (snd (analyze_single_conversation env False c w))) = judge_invocations (trace w)
    \<and> cache_writes (trace (snd (analyze_single_conversation env False c w))) = cache_writes (trace w)
    \<and> files (snd (analyze_single_conversation env False c w)) = files w"
proof -
  have "analyze_single_conversation env False c w
      = analyze_single_conversation_body env False c w"
    using assms(1) by (intro analyze_single_conversation_is_body) simp
  with assms show ?thesis
    by (simp add: analysis_defs judge_invocations_def cache_writes_def)
qed

text \<open>
  C10 at the example conversation, with its judgment cached and a Judge that would fail.
\<close>

theorem cache_hit_skips_judge_and_save_witness:
  "files cached_world (cache_path failing_env (conv_id example_conversation)) = Some ''{overall_score: 35, ...}''
   \<and> json_load_validate failing_env ''{overall_score: 35, ...}'' = Inr example_result
   \<and> fst (analyze_single_conversation failing_env False example_conversation cached_world)
       = Inr (result_to_issues example_conversation example_result)
   \<and> judge_calls (snd (analyze_single_conversation failing_env False example_conversation cached_world)) = 0
   \<and> files (snd (analyze_single_conversation failing_env False example_conversation cached_world)) = files cached_world"
proof -
  have h1: "files cached_world (cache_path failing_env (conv_id example_conversation)) = Some ''{overall_score: 35, ...}''"
    by (simp add: cached_world_def example_conversation_def cache_path_def)
  have h2: "json_load_validate failing_env ''{overall_score: 35, ...}'' = Inr example_result"
    by (simp add: failing_env_def)
  have h3: "judge_calls cached_world = 0"
    by (simp add: cached_world_def)
  show ?thesis
    using cache_hit_skips_judge_and_save [OF h1 h2] h1 h2 h3 by simp
qed

text \<open>
  C5, as stated, fails where the Judge gives no judgment: with the cache bypassed, an
  older record on file and a Judge of which every request fails, nothing is written and
  the older record stays.
\<close>

theorem no_cache_judge_raises_keeps_file:
  "judge failing_env 0 example_conversation = Inl ''rate limit'' \<and>
   judge failing_env 1 example_conversation = Inl ''rate limit'' \<and>
   judge failing_env 2 example_conversation = Inl ''rate limit'' \<and>
   judge failing_env 3 example_conversation = Inl ''rate limit'' \<and>
   fst (analyze_single_conversation failing_env True example_conversation stale_world) = Inr [] \<and>
   cache_writes (trace (snd (analyze_single_conversation failing_env True example_conversation stale_world))) = 0 \<and>
   files (snd (analyze_single_conversation failing_env True example_conversation stale_world))
     (cache_path failing_env ''c1'') = Some ''{overall_score: 90, ...}''"
  by (simp add: analyze_single_conversation_def DEFAULT_AI_MAX_RETRIES_def eval_nat_numeral
      analysis_defs failing_env_def example_conversation_def stale_world_def cache_writes_def
      cache_path_def)

text \<open>
  C5, amended. With the cache bypassed, no file is read and the outcome does not depend
  on what the files hold. When the request to the Judge answers, it is the only request,
  the issues are those of the answer and, the write going through, the conversation's
  file holds the fresh judgment afterwards. A file is written only for a judgment: with
  a Judge of which every request fails, the outcome is zero issues and no file changes.
  Nothing is said here of a Judge that fails first and would answer later.
\<close>

theorem no_cache_one_judge_call_then_put:
  "cache_reads (trace (snd (analyze_single_conversation env True c w))) = cache_reads (trace w)
   \<and> fst (analyze_single_conversation env True c (w\<lparr>files := fs\<rparr>))
       = fst (analyze_single_conversation env True c w)
   \<and> (judge env (judge_calls w) c = Inr result \<longrightarrow>
        judge_calls (snd (analyze_single_conversation env True c w)) = Suc (judge_calls w)
        \<and> judge_invocations (trace (snd (analyze_single_conversation env True c w)))
            = Suc (judge_invocations (trace w))
        \<and> fst (analyze_single_conversation env True c w) = Inr (result_to_issues c result)
        \<and> (disk env (cache_path env (conv_id c)) = NoFault \<longrightarrow>
             files (snd (analyze_single_conversation env True c w))
               = (files w)(cache_path env (conv_id c) \<mapsto> json_dump env result)))
   \<and> ((\<forall>n. \<exists>e. judge env n c = Inl e) \<longrightarrow>
        fst (analyze_single_conversation env True c w) = Inr []
        \<and> files (snd (analyze_single_conversation env True c w)) = files w
        \<and> cache_writes (trace (snd (analyze_single_conversation env True c w)))
            = cache_writes (trace w))"
proof -
  have b: "analyze_single_conversation env True c v
      = analyze_single_conversation_body env True c v" for v
    by (rule analyze_single_conversation_is_body) simp
  have reads: "cache_reads (trace (snd (analyze_single_conversation_body env True c w)))
      = cache_reads (trace w)"
    by (auto simp: analysis_defs cache_reads_def split: sum.splits write_fault.splits)
  have indep: "fst (analyze_single_conversation_body env True c (w\<lparr>files := fs\<rparr>))
      = fst (analyze_single_conversation_body env True c w)"
    by (auto simp: analysis_defs split: sum.splits write_fault.splits)
  have answers: "judge_calls (snd (analyze_single_conversation_body env True c w)) = Suc (judge_calls w)
        \<and> judge_invocations (trace (snd (analyze_single_conversation_body env True c w)))
            = Suc (judge_invocations (trace w))
        \<and> fst (analyze_single_conversation_body env True c w) = Inr (result_to_issues c result)
        \<and> (disk env (cache_path env (conv_id c)) = NoFault \<longrightarrow>
             files (snd (analyze_single_conversation_body env True c w))
               = (files w)(cache_path env (conv_id c) \<mapsto> json_dump env result))"
    if "judge env (judge_calls w) c = Inr result"
    using that
    by (auto simp: analysis_defs judge_invocations_def split: sum.splits write_fault.splits)
  have fails: "fst (analyze_single_conversation_body env True c w) = Inr []
        \<and> files (snd (analyze_single_conversation_body env True c w)) = files w
        \<and> cache_writes (trace (snd (analyze_single_conversation_body env True c w)))
            = cache_writes (trace w)"
    if "\<forall>n. \<exists>e. judge env n c = Inl e"
  proof -
    from that obtain e where "judge env (judge_calls w) c = Inl e"
      by blast
    then show ?thesis
      by (simp add: analysis_defs cache_writes_def)
  qed
  from reads indep answers fails show ?thesis
    unfolding b by blast
qed

text \<open>
  C5, amended, at the example conversation with an older record on file: once with a
  Judge that answers, once with a Judge of which every request fails.
\<close>

theorem no_cache_one_judge_call_then_put_witness:
  "judge answering_env (judge_calls stale_world) example_conversation = Inr example_result
   \<and> disk answering_env (cache_path answering_env (conv_id example_conversation)) = NoFault
   \<and> judge_calls (snd (analyze_single_conversation answering_env True example_conversation stale_world)) = 1
   \<and> files (snd (analyze_single_conversation answering_env True example_conversation stale_world))
        (cache_path answering_env ''c1'') = Some ''{overall_score: 35, ...}''
   \<and> fst (analyze_single_conversation answering_env True example_conversation stale_world)
        = Inr (result_to_issues example_conversation example_result)
   \<and> (\<forall>n. \<exists>e. judge failing_env n example_conversation = Inl e)
   \<and> fst (analyze_single_conversation failing_env True example_conversation stale_world) = Inr []
   \<and> files (snd (analyze_single_conversation failing_env True example_conversation stale_world))
        = files stale_world"
proof -
  have j: "judge answering_env (judge_calls stale_world) example_conversation = Inr example_result"
    by (simp add: answering_env_def)
  have h: "disk answering_env (cache_path answering_env (conv_id example_conversation)) = NoFault"
    by (simp add: answering_env_def)
  have d: "json_dump answering_env example_result = ''{overall_score: 35, ...}''"
    by (simp add: answering_env_def)
  have c: "cache_path answering_env (conv_id example_conversation) = cache_path answering_env ''c1''"
    "judge_calls stale_world = 0"
    by (simp_all add: example_conversation_def stale_world_def)
  have f: "\<forall>n. \<exists>e. judge failing_env n example_conversation = Inl e"
    by (simp add: failing_env_def)
  note a = no_cache_one_judge_call_then_put
    [of answering_env example_conversation stale_world "files stale_world" example_result]
  note b = no_cache_one_judge_call_then_put
    [of failing_env example_conversation stale_world "files stale_world" example_result]
  from a j h have "judge_calls (snd (analyze_single_conversation answering_env True
        example_conversation stale_world)) = Suc (judge_calls stale_world)"
    and "fst (analyze_single_conversation answering_env True example_conversation stale_world)
        = Inr (result_to_issues example_conversation example_result)"
    and "files (snd (analyze_single_conversation answering_env True example_conversation stale_world))
        = (files stale_world)(cache_path answering_env (conv_id example_conversation)
            \<mapsto> json_dump answering_env example_result)"
    by blast+
  moreover from b f have "fst (analyze_single_conversation failing_env True
        example_conversation stale_world) = Inr []"
    and "files (snd (analyze_single_conversation failing_env True example_conversation stale_world))
        = files stale_world"
    by blast+
  ultimately show ?thesis
    using j h f by (simp add: d c)
qed

text \<open>
  What holds of C9: when the existence check answers that there is no file, the read
  gives \<^verbatim>\<open>None\<close> and nothing else happens; a file that is there and does not load or
  validate gives \<^verbatim>\<open>None\<close> too, a warning is logged, no file changes, and the
  analysis of that conversation goes on to make one request to the Judge, whose outcome
  it returns.
\<close>

lemma cache_miss_when_check_answers:
  "(files w (cache_path env cid) = None \<and> stat_error env (cache_path env cid) = None \<longrightarrow>
      load_cached_analysis env cid w = (Inr None, w))
   \<and> (files w (cache_path env cid) = Some data \<and> json_load_validate env data = Inl e \<longrightarrow>
        fst (load_cached_analysis env cid w) = Inr None
        \<and> trace (snd (load_cached_analysis env cid w)) = trace w @ [CacheRead cid, Log WARNING cid]
        \<and> files (snd (load_cached_analysis env cid w)) = files w
        \<and> (conv_id c = cid \<longrightarrow>
             judge_calls (snd (analyze_single_conversation env False c w)) = Suc (judge_calls w)
             \<and> judge_invocations (trace (snd (analyze_single_conversation env False c w)))
                 = Suc (judge_invocations (trace w))
             \<and> fst (analyze_single_conversation env False c w)
                 = (case judge env (judge_calls w) c of
                      Inr result \<Rightarrow> Inr (result_to_issues c result)
                    | Inl e' \<Rightarrow> Inr [])))"
proof -
  have miss: "load_cached_analysis env cid w = (Inr None, w)"
    if "files w (cache_path env cid) = None \<and> stat_error env (cache_path env cid) = None"
    using that by (simp add: load_cached_analysis_def)
  have corrupt: "fst (load_cached_analysis env cid w) = Inr None
        \<and> trace (snd (load_cached_analysis env cid w)) = trace w @ [CacheRead cid, Log WARNING cid]
        \<and> files (snd (load_cached_analysis env cid w)) = files w
        \<and> (conv_id c = cid \<longrightarrow>
             judge_calls (snd (analyze_single_conversation env False c w)) = Suc (judge_calls w)
             \<and> judge_invocations (trace (snd (analyze_single_conversation env False c w)))
                 = Suc (judge_invocations (trace w))
             \<and> fst (analyze_single_conversation env False c w)
                 = (case judge env (judge_calls w) c of
                      Inr result \<Rightarrow> Inr (result_to_issues c result)
                    | Inl e' \<Rightarrow> Inr []))"
    if h: "files w (cache_path env cid) = Some data \<and> json_load_validate env data = Inl e"
  proof -
    have "analyze_single_conversation env False c w
        = analyze_single_conversation_body env False c w" if "conv_id c = cid"
      using h that by (intro analyze_single_conversation_is_body) simp
    with h show ?thesis
      by (auto simp: analysis_defs judge_invocations_def split: sum.splits write_fault.splits)
  qed
  from miss corrupt show ?thesis
    by blast
qed

text \<open>
  C9. The claim: for a missing cached file the read returns absent without raising.
  The existence check stands before the \<^verbatim>\<open>try\<close>. For a conversation whose id has
  300 characters, no cached file, and a file system that refuses the name: the read
  raises the error of the check, the decorator calls the function four times with
  pauses of 2, 2 and 4 seconds, no request reaches the Judge, and the analysis of the
  conversation ends with \<^verbatim>\<open>RetryError\<close>.
\<close>

theorem existence_check_raises_outside_try:
  "files empty_world (cache_path long_name_env (conv_id long_conversation)) = None \<and>
   fst (load_cached_analysis long_name_env (conv_id long_conversation) empty_world)
     = Inl ''OSError: [Errno 36] File name too long'' \<and>
   fst (analyze_single_conversation long_name_env False long_conversation empty_world)
     = Inl ''RetryError'' \<and>
   trace (snd (analyze_single_conversation long_name_env False long_conversation empty_world))
     = [Sleep 2, Sleep 2, Sleep 4] \<and>
   judge_calls (snd (analyze_single_conversation long_name_env False long_conversation empty_world)) = 0"
proof -
  have l: "255 < length (cache_path long_name_env (conv_id long_conversation))"
    by (simp add: cache_path_def long_conversation_def example_join_def)
  then have s: "stat_error long_name_env (cache_path long_name_env (conv_id long_conversation))
      = Some ''OSError: [Errno 36] File name too long''"
    by (simp add: long_name_env_def)
  have m: "files empty_world p = None" for p
    by (simp add: empty_world_def)
  have ld: "load_cached_analysis long_name_env (conv_id long_conversation) w
      = (Inl ''OSError: [Errno 36] File name too long'', w)" if "files w = Map.empty" for w
    using that s by (simp add: load_cached_analysis_def)
  have body: "analyze_single_conversation_body long_name_env False long_conversation w
      = (Inl ''OSError: [Errno 36] File name too long'', w)" if "files w = Map.empty" for w
    using ld [OF that] by (simp add: analyze_single_conversation_body_def)
  have run: "analyze_single_conversation long_name_env False long_conversation empty_world
      = (Inl ''RetryError'', empty_world\<lparr>trace := [Sleep 2, Sleep 2, Sleep 4]\<rparr>)"
    by (simp add: analyze_single_conversation_def DEFAULT_AI_MAX_RETRIES_def eval_nat_numeral
        body emit_def empty_world_def wait_exponential_def)
  from m ld [of empty_world] run show ?thesis
    by (simp add: empty_world_def)
qed

text \<open>
  C4, as stated, fails: the destination is written in place. With an older record on
  file and a write that fails after three characters, the save does not raise, the file
  holds those three characters instead of the older record, and the next load reads the
  fragment and treats it as a miss.
\<close>

theorem failed_put_replaces_record_by_a_fragment:
  "files stale_world (cache_path full_disk_env ''c1'') = Some ''{overall_score: 90, ...}'' \<and>
   disk full_disk_env (cache_path full_disk_env ''c1'') = FailsAfter 3 \<and>
   fst (save_conversation_analysis full_disk_env ''c1'' example_result stale_world) = Inr () \<and>
   files (snd (save_conversation_analysis full_disk_env ''c1'' example_result stale_world))
     (cache_path full_disk_env ''c1'') = Some ''{ov'' \<and>
   fst (load_cached_analysis full_disk_env ''c1''
          (snd (save_conversation_analysis full_disk_env ''c1'' example_result stale_world))) = Inr None"
  by (simp add: analysis_defs full_disk_env_def stale_world_def cache_path_def)

text \<open>
  C4, amended. The save never raises and changes no file but the one at the path it
  computes from the id. With no fault that file holds exactly the serialized judgment;
  when the open fails the file is as before; when the write fails later the file holds
  the characters written up to then, in place of any earlier record. A load under the
  same id that follows sees exactly that content: the judgment if it validates, a miss
  otherwise. Ids that the join maps to one path share one file.
\<close>

theorem put_writes_in_place:
  "fst (save_conversation_analysis env cid result w) = Inr ()
   \<and> (\<forall>p. p \<noteq> cache_path env cid \<longrightarrow>
        files (snd (save_conversation_analysis env cid result w)) p = files w p)
   \<and> files (snd (save_conversation_analysis env cid result w)) (cache_path env cid)
       = (case disk env (cache_path env cid) of
            NoFault \<Rightarrow> Some (json_dump env result)
          | OpenFails \<Rightarrow> files w (cache_path env cid)
          | FailsAfter n \<Rightarrow> Some (take n (json_dump env result)))
   \<and> fst (load_cached_analysis env cid (snd (save_conversation_analysis env cid result w)))
       = (case disk env (cache_path env cid) of
            NoFault \<Rightarrow> (case json_load_validate env (json_dump env result) of
                          Inr r \<Rightarrow> Inr (Some r) | Inl e \<Rightarrow> Inr None)
          | OpenFails \<Rightarrow> fst (load_cached_analysis env cid w)
          | FailsAfter n \<Rightarrow> (case json_load_validate env (take n (json_dump env result)) of
                          Inr r \<Rightarrow> Inr (Some r) | Inl e \<Rightarrow> Inr None))"
  by (auto simp: analysis_defs split: sum.splits write_fault.splits option.splits)

text \<open>
  C4, amended, at the example: a put that goes through replaces the record at its path
  and leaves the file at another path alone; and a put under the id \<^verbatim>\<open>./c1\<close> goes
  to the path of the id \<^verbatim>\<open>c1\<close> and replaces that record.
\<close>

theorem put_writes_in_place_witness:
  "cache_path answering_env ''c2'' \<noteq> cache_path answering_env ''c1''
   \<and> files (snd (save_conversation_analysis answering_env ''c1'' example_result stale_world))
        (cache_path answering_env ''c2'') = files stale_world (cache_path answering_env ''c2'')
   \<and> files (snd (save_conversation_analysis answering_env ''c1'' example_result stale_world))
        (cache_path answering_env ''c1'') = Some ''{overall_score: 35, ...}''
   \<and> cache_path answering_env ''./c1'' = cache_path answering_env ''c1''
   \<and> files stale_world (cache_path answering_env ''c1'') = Some ''{overall_score: 90, ...}''
   \<and> files (snd (save_conversation_analysis answering_env ''./c1'' example_result stale_world))
        (cache_path answering_env ''c1'') = Some ''{overall_score: 35, ...}''"
proof -
  have ne: "cache_path answering_env ''c2'' \<noteq> cache_path answering_env ''c1''"
    by (simp add: cache_path_def)
  have al: "cache_path answering_env ''./c1'' = cache_path answering_env ''c1''"
    by (simp add: cache_path_def)
  have old: "files stale_world (cache_path answering_env ''c1'') = Some ''{overall_score: 90, ...}''"
    by (simp add: cache_path_def stale_world_def)
  have d: "disk answering_env p = NoFault"
    "json_dump answering_env example_result = ''{overall_score: 35, ...}''" for p
    by (simp_all add: answering_env_def)
  note t = put_writes_in_place [of answering_env "''c1''" example_result stale_world]
  note u = put_writes_in_place [of answering_env "''./c1''" example_result stale_world]
  from t have "\<forall>p. p \<noteq> cache_path answering_env ''c1'' \<longrightarrow>
      files (snd (save_conversation_analysis answering_env ''c1'' example_result stale_world)) p
        = files stale_world p"
    by blast
  with ne have other: "files (snd (save_conversation_analysis answering_env ''c1'' example_result stale_world))
        (cache_path answering_env ''c2'') = files stale_world (cache_path answering_env ''c2'')"
    by blast
  from t have own: "files (snd (save_conversation_analysis answering_env ''c1'' example_result stale_world))
        (cache_path answering_env ''c1'') = Some ''{overall_score: 35, ...}''"
    by (simp add: d)
  from u have "files (snd (save_conversation_analysis answering_env ''./c1'' example_result stale_world))
        (cache_path answering_env ''./c1'') = Some ''{overall_score: 35, ...}''"
    by (simp add: d)
  then have shared: "files (snd (save_conversation_analysis answering_env ''./c1'' example_result stale_world))
        (cache_path answering_env ''c1'') = Some ''{overall_score: 35, ...}''"
    by (simp only: al)
  from ne other own al old shared show ?thesis
    by blast
qed

section \<open>Properties of the aggregation\<close>

subsection \<open>Descending stable sort\<close>

lemma mset_sort_reverse: "mset (sort_reverse key xs) = mset xs"
  by (simp add: sort_reverse_def)

lemma set_sort_reverse: "set (sort_reverse key xs) = set xs"
  by (simp add: sort_reverse_def)

lemma length_sort_reverse: "length (sort_reverse key xs) = length xs"
  by (simp add: sort_reverse_def)

lemma sorted_sort_reverse: "sorted_wrt (\<lambda>a b. key b \<le> key a) (sort_reverse key xs)"
proof -
  have "sorted (map key (sort_key key (rev xs)))"
    by (rule sorted_sort_key)
  then have "sorted_wrt (\<lambda>a b. key a \<le> key b) (sort_key key (rev xs))"
    by (simp add: sorted_wrt_map)
  then show ?thesis
    by (simp add: sort_reverse_def sorted_wrt_rev)
qed

lemma sort_reverse_stable:
  "filter (\<lambda>y. key y = v) (sort_reverse key xs) = filter (\<lambda>y. key y = v) xs"
proof -
  have "filter (\<lambda>y. key y = v) (sort_reverse key xs)
        = rev (filter (\<lambda>y. key y = v) (sort_key key (rev xs)))"
    by (simp add: sort_reverse_def rev_filter)
  also have "\<dots> = rev (filter (\<lambda>y. key y = v) (rev xs))"
    by (simp only: sort_key_stable)
  also have "\<dots> = filter (\<lambda>y. key y = v) xs"
    by (simp add: rev_filter)
  finally show ?thesis .
qed

lemma descending_unique:
  fixes ks ks' :: "int list"
  assumes "sorted_wrt (\<lambda>a b. b \<le> a) ks" and "sorted_wrt (\<lambda>a b. b \<le> a) ks'"
    and "mset ks = mset ks'"
  shows "ks = ks'"
proof -
  have a: "sorted (rev ks)" and b: "sorted (rev ks')"
    using assms(1,2) by (simp_all add: sorted_wrt_rev)
  have m: "mset (rev ks) = mset (rev ks')"
    using assms(3) by simp
  have "rev ks = sort (rev ks)"
    using a by (simp add: sorted_sort_id)
  also have "\<dots> = sorted_list_of_multiset (mset (rev ks))"
    by (simp only: sorted_list_of_multiset_mset)
  also have "\<dots> = sorted_list_of_multiset (mset (rev ks'))"
    by (simp only: m)
  also have "\<dots> = sort (rev ks')"
    by (simp only: sorted_list_of_multiset_mset)
  also have "\<dots> = rev ks'"
    using b by (simp add: sorted_sort_id)
  finally show ?thesis by simp
qed

lemma keys_sort_reverse_cong:
  assumes "mset xs = mset ys"
  shows "map key (sort_reverse key xs) = map key (sort_reverse key ys)"
proof (rule descending_unique)
  show "sorted_wrt (\<lambda>a b. b \<le> a) (map key (sort_reverse key xs))"
    using sorted_sort_reverse [of key xs] by (simp add: sorted_wrt_map)
  show "sorted_wrt (\<lambda>a b. b \<le> a) (map key (sort_reverse key ys))"
    using sorted_sort_reverse [of key ys] by (simp add: sorted_wrt_map)
  have "mset (map key (sort_reverse key xs)) = image_mset key (mset xs)"
    by (simp add: mset_sort_reverse)
  also have "\<dots> = mset (map key (sort_reverse key ys))"
    using assms by (simp add: mset_sort_reverse)
  finally show "mset (map key (sort_reverse key xs)) = mset (map key (sort_reverse key ys))" .
qed

subsection \<open>Buckets\<close>

lemma foldl_foldl_concat: "foldl (foldl f) b xss = foldl f b (concat xss)"
  by (induction xss arbitrary: b) simp_all

lemma foldl_categorize_issue:
  "b_obvious_wrong_answers (foldl categorize_issue b xs)
     = b_obvious_wrong_answers b @ filter (\<lambda>i. issue_type i = OBVIOUS_WRONG_ANSWER) xs"
  "b_missed_escalation (foldl categorize_issue b xs)
     = b_missed_escalation b @ filter (\<lambda>i. issue_type i = MISSED_ESCALATION) xs"
  "b_dumb_questions (foldl categorize_issue b xs)
     = b_dumb_questions b @ filter (\<lambda>i. issue_type i = DUMB_QUESTION) xs"
  "b_repetitive (foldl categorize_issue b xs)
     = b_repetitive b @ filter (\<lambda>i. issue_type i = REPETITIVE) xs"
  "b_lack_of_encouragement (foldl categorize_issue b xs)
     = b_lack_of_encouragement b @ filter (\<lambda>i. issue_type i = LACK_OF_ENCOURAGEMENT) xs"
  "b_dead_end (foldl categorize_issue b xs)
     = b_dead_end b @ filter (\<lambda>i. issue_type i = DEAD_END) xs"
  "b_unhelpful (foldl categorize_issue b xs)
     = b_unhelpful b @ filter (\<lambda>i. issue_type i \<notin> {OBVIOUS_WRONG_ANSWER, MISSED_ESCALATION, DUMB_QUESTION,
          REPETITIVE, LACK_OF_ENCOURAGEMENT, DEAD_END}) xs"
  by (induction xs arbitrary: b; simp add: categorize_issue_def)+

lemma categorize_filter:
  "b_obvious_wrong_answers (categorize rs) = filter (\<lambda>i. issue_type i = OBVIOUS_WRONG_ANSWER) (concat rs)"
  "b_missed_escalation (categorize rs) = filter (\<lambda>i. issue_type i = MISSED_ESCALATION) (concat rs)"
  "b_dumb_questions (categorize rs) = filter (\<lambda>i. issue_type i = DUMB_QUESTION) (concat rs)"
  "b_repetitive (categorize rs) = filter (\<lambda>i. issue_type i = REPETITIVE) (concat rs)"
  "b_lack_of_encouragement (categorize rs) = filter (\<lambda>i. issue_type i = LACK_OF_ENCOURAGEMENT) (concat rs)"
  "b_dead_end (categorize rs) = filter (\<lambda>i. issue_type i = DEAD_END) (concat rs)"
  "b_unhelpful (categorize rs) = filter (\<lambda>i. issue_type i \<notin> {OBVIOUS_WRONG_ANSWER, MISSED_ESCALATION, DUMB_QUESTION,
          REPETITIVE, LACK_OF_ENCOURAGEMENT, DEAD_END}) (concat rs)"
  by (simp_all add: categorize_def foldl_foldl_concat foldl_categorize_issue empty_buckets_def)


lemma categories_analyze_async:
  "categories (analyze_async single ac cs) =
     (let all = concat (ac (map single cs)) in
      [sort_reverse severity_key (filter (\<lambda>i. issue_type i = REPETITIVE) all),
       sort_reverse severity_key (filter (\<lambda>i. issue_type i \<notin> {OBVIOUS_WRONG_ANSWER, MISSED_ESCALATION, DUMB_QUESTION,
          REPETITIVE, LACK_OF_ENCOURAGEMENT, DEAD_END}) all),
       [],
       sort_reverse severity_key (filter (\<lambda>i. issue_type i = DEAD_END) all),
       [],
       sort_reverse severity_key (filter (\<lambda>i. issue_type i = OBVIOUS_WRONG_ANSWER) all),
       sort_reverse severity_key (filter (\<lambda>i. issue_type i = MISSED_ESCALATION) all),
       sort_reverse severity_key (filter (\<lambda>i. issue_type i = DUMB_QUESTION) all),
       sort_reverse severity_key (filter (\<lambda>i. issue_type i = LACK_OF_ENCOURAGEMENT) all)])"
  by (simp add: categories_def analyze_async_def Let_def categorize_filter)

lemma category_shape:
  assumes "bucket \<in> set (categories (analyze_async single ac cs))"
  shows "\<exists>P. bucket = sort_reverse severity_key (filter P (concat (ac (map single cs))))"
proof -
  have e: "[] = sort_reverse severity_key (filter (\<lambda>i. False) (concat (ac (map single cs))))"
    by (simp add: sort_reverse_def)
  from assms show ?thesis
    unfolding categories_analyze_async Let_def
    using e by (auto simp del: filter_False)
qed

lemma analysis_outcome_cases:
  assumes "fst (analyze_single_conversation env no_cache c w) = Inr v"
  shows "v = [] \<or> (\<exists>r. v = result_to_issues c r)"
proof -
  from assms obtain w' where "analyze_single_conversation env no_cache c w = (Inr v, w')"
    by (cases "analyze_single_conversation env no_cache c w") simp
  then have "\<exists>w0. analyze_single_conversation_body env no_cache c w0 = (Inr v, w')"
    unfolding analyze_single_conversation_def by (rule retry_from_result)
  then obtain w0 where "analyze_single_conversation_body env no_cache c w0 = (Inr v, w')"
    by blast
  then show ?thesis
    by (auto simp: analysis_defs
        split: option.splits sum.splits prod.splits write_fault.splits if_splits)
qed

lemma projected_issue_score:
  assumes "x \<in> set (result_to_issues c r)"
  shows "severity_score x = Some (severity_key x) \<and> severity_key x \<in> {3, 6, 9}"
proof -
  from assms obtain f where "x = flag_to_issue c r f"
    by (auto simp: result_to_issues_def)
  then show ?thesis
    by (cases "severity f") (simp_all add: flag_to_issue_score severity_key_def)
qed

text \<open>
  C6. Whatever the tasks return and in whatever order they complete, every category
  list of the analysis is non-increasing in the sort key \<^verbatim>\<open>severity_score or 0\<close>, and
  no issue of score 9 stands after an issue of score 3 in a category. When the lists
  are what \<^verbatim>\<open>_analyze_single_conversation\<close> returns, every issue carries a score, the
  key is that score, and it is 3, 6 or 9.
\<close>

theorem categories_sorted_by_severity:
  "(\<forall>bucket \<in> set (categories (analyze_async single as_completed conversations)).
      sorted_wrt (\<lambda>a b. severity_key b \<le> severity_key a) bucket
      \<and> (\<forall>i j. i < j \<and> j < length bucket \<longrightarrow>
            \<not> (severity_score (bucket ! i) = Some 3 \<and> severity_score (bucket ! j) = Some 9)))
   \<and> ((\<forall>c \<in> set conversations. \<exists>env no_cache w.
          fst (analyze_single_conversation env no_cache c w) = Inr (single c))
       \<and> (\<forall>xs. mset (as_completed xs) = mset xs) \<longrightarrow>
       (\<forall>bucket \<in> set (categories (analyze_async single as_completed conversations)).
          \<forall>x \<in> set bucket. severity_score x = Some (severity_key x) \<and> severity_key x \<in> {3, 6, 9}))"
proof -
  have part1: "\<forall>bucket \<in> set (categories (analyze_async single as_completed conversations)).
      sorted_wrt (\<lambda>a b. severity_key b \<le> severity_key a) bucket
      \<and> (\<forall>i j. i < j \<and> j < length bucket \<longrightarrow>
            \<not> (severity_score (bucket ! i) = Some 3 \<and> severity_score (bucket ! j) = Some 9))"
  proof (rule ballI)
    fix bucket
    assume "bucket \<in> set (categories (analyze_async single as_completed conversations))"
    then obtain P where b: "bucket = sort_reverse severity_key
        (filter P (concat (as_completed (map single conversations))))"
      using category_shape by blast
    have s: "sorted_wrt (\<lambda>a b. severity_key b \<le> severity_key a) bucket"
      unfolding b by (rule sorted_sort_reverse)
    have "\<not> (severity_score (bucket ! i) = Some 3 \<and> severity_score (bucket ! j) = Some 9)"
      if ij: "i < j \<and> j < length bucket" for i j
    proof
      assume sc: "severity_score (bucket ! i) = Some 3 \<and> severity_score (bucket ! j) = Some 9"
      from s ij have "severity_key (bucket ! j) \<le> severity_key (bucket ! i)"
        by (simp add: sorted_wrt_iff_nth_less)
      with sc show False
        by (simp add: severity_key_def)
    qed
    with s show "sorted_wrt (\<lambda>a b. severity_key b \<le> severity_key a) bucket
      \<and> (\<forall>i j. i < j \<and> j < length bucket \<longrightarrow>
            \<not> (severity_score (bucket ! i) = Some 3 \<and> severity_score (bucket ! j) = Some 9))"
      by blast
  qed
  have part2: "\<forall>bucket \<in> set (categories (analyze_async single as_completed conversations)).
          \<forall>x \<in> set bucket. severity_score x = Some (severity_key x) \<and> severity_key x \<in> {3, 6, 9}"
    if h: "(\<forall>c \<in> set conversations. \<exists>env no_cache w.
          fst (analyze_single_conversation env no_cache c w) = Inr (single c))
       \<and> (\<forall>xs. mset (as_completed xs) = mset xs)"
  proof (intro ballI)
    fix bucket x
    assume "bucket \<in> set (categories (analyze_async single as_completed conversations))"
      and x: "x \<in> set bucket"
    then obtain P where b: "bucket = sort_reverse severity_key
        (filter P (concat (as_completed (map single conversations))))"
      using category_shape by blast
    from h have "set (as_completed (map single conversations)) = set (map single conversations)"
      by (metis set_mset_mset)
    with x b obtain c where c: "c \<in> set conversations" and xc: "x \<in> set (single c)"
      by (auto simp: set_sort_reverse)
    from h c obtain env no_cache w where
      "fst (analyze_single_conversation env no_cache c w) = Inr (single c)"
      by blast
    then have "single c = [] \<or> (\<exists>r. single c = result_to_issues c r)"
      by (rule analysis_outcome_cases)
    with xc obtain r where "x \<in> set (result_to_issues c r)"
      by auto
    then show "severity_score x = Some (severity_key x) \<and> severity_key x \<in> {3, 6, 9}"
      by (rule projected_issue_score)
  qed
  from part1 part2 show ?thesis
    by blast
qed


lemma example_single_is_analysis:
  "fst (analyze_single_conversation graded_env True c empty_world) = Inr (example_single c)"
proof -
  obtain v where "fst (analyze_single_conversation_body graded_env True c empty_world) = Inr v"
    using body_returns [of True empty_world graded_env c] by auto
  then show ?thesis
    unfolding example_single_def
    by (simp add: analyze_single_conversation_is_body [of True])
qed

text \<open>
  C6 at two conversations handed over in the order \<^verbatim>\<open>c2\<close>, \<^verbatim>\<open>c1\<close>: the
  low-severity missed escalation of \<^verbatim>\<open>c2\<close> is found first and stands last.
\<close>

theorem categories_sorted_by_severity_witness:
  "map conversation_id
     (missed_escalation (analyze_async example_single (\<lambda>rs. rs) [other_conversation, example_conversation]))
     = [''c1'', ''c2'']
   \<and> map severity_score
     (missed_escalation (analyze_async example_single (\<lambda>rs. rs) [other_conversation, example_conversation]))
     = [Some 9, Some 3]
   \<and> sorted_wrt (\<lambda>a b. severity_key b \<le> severity_key a)
       (missed_escalation (analyze_async example_single (\<lambda>rs. rs) [other_conversation, example_conversation]))
   \<and> \<not> (severity_score
          (missed_escalation (analyze_async example_single (\<lambda>rs. rs) [other_conversation, example_conversation]) ! 0)
          = Some 3
        \<and> severity_score
          (missed_escalation (analyze_async example_single (\<lambda>rs. rs) [other_conversation, example_conversation]) ! 1)
          = Some 9)
   \<and> severity_score
       (hd (missed_escalation (analyze_async example_single (\<lambda>rs. rs) [other_conversation, example_conversation])))
     = Some (severity_key
       (hd (missed_escalation (analyze_async example_single (\<lambda>rs. rs) [other_conversation, example_conversation]))))"
proof -
  let ?qa = "analyze_async example_single (\<lambda>rs. rs) [other_conversation, example_conversation]"
  have ids: "map conversation_id (missed_escalation ?qa) = [''c1'', ''c2'']"
    by code_simp
  have ev: "map severity_score (missed_escalation ?qa) = [Some 9, Some 3]"
    by code_simp
  have mem: "missed_escalation ?qa \<in> set (categories ?qa)"
    by (simp add: categories_def)
  from ev have len: "length (missed_escalation ?qa) = 2"
    by (metis length_map length_Cons list.size(3) numeral_2_eq_2)
  then have "missed_escalation ?qa \<noteq> []"
    by auto
  then have hd: "hd (missed_escalation ?qa) \<in> set (missed_escalation ?qa)"
    by (rule hd_in_set)
  have ij: "(0::nat) < 1 \<and> 1 < length (missed_escalation ?qa)"
    using len by simp
  have h1: "\<forall>c \<in> set [other_conversation, example_conversation]. \<exists>env no_cache w.
      fst (analyze_single_conversation env no_cache c w) = Inr (example_single c)"
    using example_single_is_analysis by blast
  have h2: "\<forall>xs :: ConversationIssue list list. mset ((\<lambda>rs. rs) xs) = mset xs"
    by simp
  note t = categories_sorted_by_severity
    [of example_single "\<lambda>rs. rs" "[other_conversation, example_conversation]"]
  from t mem have s: "sorted_wrt (\<lambda>a b. severity_key b \<le> severity_key a) (missed_escalation ?qa)"
    by blast
  from t mem ij have n: "\<not> (severity_score (missed_escalation ?qa ! 0) = Some 3
      \<and> severity_score (missed_escalation ?qa ! 1) = Some 9)"
    by blast
  from t h1 h2 mem hd
  have k: "severity_score (hd (missed_escalation ?qa)) = Some (severity_key (hd (missed_escalation ?qa)))"
    by blast
  from ids ev s n k show ?thesis
    by blast
qed

subsection \<open>Independence of the order\<close>

lemma mset_concat_cong:
  assumes "mset xss = mset yss"
  shows "mset (concat xss) = mset (concat yss)"
proof -
  have "mset (concat zss) = sum_mset (image_mset mset (mset zss))" for zss :: "'a list list"
    by (induction zss) simp_all
  with assms show ?thesis by simp
qed

lemma results_mset:
  assumes "mset cs' = mset cs"
    and "\<forall>xs. mset (ac xs) = mset xs" and "\<forall>xs. mset (ac' xs) = mset xs"
  shows "mset (concat (ac' (map single cs'))) = mset (concat (ac (map single cs)))"
proof (rule mset_concat_cong)
  have "mset (ac' (map single cs')) = image_mset single (mset cs')"
    using assms(3) by simp
  also have "\<dots> = mset (ac (map single cs))"
    using assms(1,2) by simp
  finally show "mset (ac' (map single cs')) = mset (ac (map single cs))" .
qed

lemma sum_list_map_cong_mset:
  fixes f :: "'a \<Rightarrow> int"
  assumes "mset xs = mset ys"
  shows "sum_list (map f xs) = sum_list (map f ys)"
proof -
  have "sum_list (map f zs) = sum_mset (image_mset f (mset zs))" for zs
    by (induction zs) simp_all
  with assms show ?thesis by simp
qed

lemma summary_of_cong:
  assumes "mset xs = mset ys"
  shows "summary_of xs = summary_of ys"
proof -
  have s: "set xs = set ys"
    using assms by (rule mset_eq_setD)
  have l: "length xs = length ys"
    using assms by (rule mset_eq_length)
  have f: "mset (filter is_scored xs) = mset (filter is_scored ys)"
    using assms by simp
  have fl: "length (filter is_scored xs) = length (filter is_scored ys)"
    using f by (rule mset_eq_length)
  have fe: "(filter is_scored xs = []) = (filter is_scored ys = [])"
    using fl by (metis length_0_conv)
  have fs: "sum_list (map score_or_zero (filter is_scored xs))
      = sum_list (map score_or_zero (filter is_scored ys))"
    using f by (rule sum_list_map_cong_mset)
  show ?thesis
    by (simp add: summary_of_def Let_def s l fl fe fs)
qed

lemma guard_cong:
  assumes "mset xs = mset ys"
  shows "(xs \<noteq> [] \<and> list_ex is_scored xs) = (ys \<noteq> [] \<and> list_ex is_scored ys)"
proof -
  have "set xs = set ys"
    using assms by (rule mset_eq_setD)
  then show ?thesis
    by (auto simp: list_ex_iff)
qed

lemma top_offenders_keys_cong:
  assumes "mset xs = mset ys"
  shows "map score_or_zero (top_offenders_of xs) = map score_or_zero (top_offenders_of ys)"
proof -
  have "mset (filter is_scored xs) = mset (filter is_scored ys)"
    using assms by simp
  then have "map score_or_zero (sort_reverse score_or_zero (filter is_scored xs))
      = map score_or_zero (sort_reverse score_or_zero (filter is_scored ys))"
    by (rule keys_sort_reverse_cong)
  then show ?thesis
    by (simp add: top_offenders_of_def take_map [symmetric] del: take_map)
qed

lemma all_issues_categories: "all_issues qa = concat (categories qa)"
  by (simp add: all_issues_def categories_def)

lemma mset_concat_list_all2:
  assumes "list_all2 (\<lambda>b b'. mset b' = mset b) xss yss"
  shows "mset (concat yss) = mset (concat xss)"
  using assms by (induction rule: list_all2_induct) simp_all

text \<open>
  C3, as stated, fails for the top-offenders list. Two conversations, the first with
  twenty high-severity flags and the second with one, all of one type: in one order of
  the input the list holds the twenty issues of the first conversation, in the other
  order it holds the issue of the second and nineteen of the first.
\<close>

theorem top_offenders_depend_on_order:
  "mset [other_conversation, example_conversation] = mset [example_conversation, other_conversation]
   \<and> map_option (map conversation_id)
       (dict_top_offenders (to_dict (analyze_async judged_single (\<lambda>rs. rs)
          [example_conversation, other_conversation])))
     = Some (replicate 20 ''c1'')
   \<and> map_option (map conversation_id)
       (dict_top_offenders (to_dict (analyze_async judged_single (\<lambda>rs. rs)
          [other_conversation, example_conversation])))
     = Some (''c2'' # replicate 19 ''c1'')"
proof -
  have a: "mset [other_conversation, example_conversation] = mset [example_conversation, other_conversation]"
    by (simp add: add_mset_commute)
  have b: "map_option (map conversation_id)
       (dict_top_offenders (to_dict (analyze_async judged_single (\<lambda>rs. rs)
          [example_conversation, other_conversation])))
     = Some (replicate 20 ''c1'')"
    by code_simp
  have c: "map_option (map conversation_id)
       (dict_top_offenders (to_dict (analyze_async judged_single (\<lambda>rs. rs)
          [other_conversation, example_conversation])))
     = Some (''c2'' # replicate 19 ''c1'')"
    by code_simp
  from a b c show ?thesis
    by blast
qed

text \<open>
  C3, amended. For a permutation of the conversations and any two completion orders,
  the two analyses have the same total, each category holds the same multiset of
  issues with the same severities position by position (so the order differs only
  among issues of equal severity), the \<^verbatim>\<open>summary\<close> entry of the serialization is the
  same, and the top-offenders lists have the same length and the same severities
  position by position. Which issues of a tied severity make it into the top-offenders
  list is not determined.
\<close>

theorem aggregate_independent_of_order:
  assumes "mset conversations' = mset conversations"
    and "\<forall>xs. mset (as_completed xs) = mset xs"
    and "\<forall>xs. mset (as_completed' xs) = mset xs"
  shows "total_analyzed (analyze_async single as_completed' conversations')
           = total_analyzed (analyze_async single as_completed conversations)
    \<and> list_all2 (\<lambda>b b'. mset b' = mset b \<and> map severity_key b' = map severity_key b)
        (categories (analyze_async single as_completed conversations))
        (categories (analyze_async single as_completed' conversations'))
    \<and> dict_summary (to_dict (analyze_async single as_completed' conversations'))
        = dict_summary (to_dict (analyze_async single as_completed conversations))
    \<and> map_option (map score_or_zero)
          (dict_top_offenders (to_dict (analyze_async single as_completed' conversations')))
        = map_option (map score_or_zero)
          (dict_top_offenders (to_dict (analyze_async single as_completed conversations)))"
proof -
  let ?qa = "analyze_async single as_completed conversations"
  let ?qa' = "analyze_async single as_completed' conversations'"
  let ?all = "concat (as_completed (map single conversations))"
  let ?all' = "concat (as_completed' (map single conversations'))"
  have m: "mset ?all' = mset ?all"
    using assms by (rule results_mset)
  have t: "total_analyzed ?qa' = total_analyzed ?qa"
    using mset_eq_length [OF assms(1)] by (simp add: analyze_async_def Let_def)
  have b: "mset (sort_reverse severity_key (filter P ?all'))
             = mset (sort_reverse severity_key (filter P ?all))
           \<and> map severity_key (sort_reverse severity_key (filter P ?all'))
             = map severity_key (sort_reverse severity_key (filter P ?all))" for P
  proof -
    have "mset (filter P ?all') = mset (filter P ?all)"
      using m by simp
    then show ?thesis
      using keys_sort_reverse_cong [of "filter P ?all'" "filter P ?all" severity_key]
      by (simp add: mset_sort_reverse)
  qed
  have c: "list_all2 (\<lambda>b b'. mset b' = mset b \<and> map severity_key b' = map severity_key b)
        (categories ?qa) (categories ?qa')"
    unfolding categories_analyze_async Let_def
    by (simp only: list_all2_Cons list_all2_Nil b simp_thms)
  then have "list_all2 (\<lambda>b b'. mset b' = mset b) (categories ?qa) (categories ?qa')"
    by (rule list_all2_mono) simp
  then have a: "mset (all_issues ?qa') = mset (all_issues ?qa)"
    unfolding all_issues_categories by (rule mset_concat_list_all2)
  have s: "dict_summary (to_dict ?qa') = dict_summary (to_dict ?qa)"
    using summary_of_cong [OF a] guard_cong [OF a] by (simp add: to_dict_def Let_def)
  have o: "map_option (map score_or_zero) (dict_top_offenders (to_dict ?qa'))
      = map_option (map score_or_zero) (dict_top_offenders (to_dict ?qa))"
    using top_offenders_keys_cong [OF a] guard_cong [OF a] by (simp add: to_dict_def Let_def)
  from t c s o show ?thesis
    by blast
qed


text \<open>
  C3, amended, at the two example conversations in both orders, completed in
  submission order and in reverse.
\<close>

theorem aggregate_independent_of_order_witness:
  "mset [other_conversation, example_conversation] = mset [example_conversation, other_conversation]
   \<and> total_analyzed (analyze_async example_single rev [other_conversation, example_conversation])
       = total_analyzed (analyze_async example_single (\<lambda>rs. rs) [example_conversation, other_conversation])
   \<and> dict_summary (to_dict (analyze_async example_single rev [other_conversation, example_conversation]))
       = dict_summary (to_dict (analyze_async example_single (\<lambda>rs. rs) [example_conversation, other_conversation]))
   \<and> dict_summary (to_dict (analyze_async example_single (\<lambda>rs. rs) [example_conversation, other_conversation]))
       = Some \<lparr> conversations_with_issues = 2, average_severity = 6, total_issues_found = 3 \<rparr>"
proof -
  have a: "mset [other_conversation, example_conversation] = mset [example_conversation, other_conversation]"
    by (simp add: add_mset_commute)
  have b: "\<forall>xs :: ConversationIssue list list. mset ((\<lambda>rs. rs) xs) = mset xs"
    by simp
  have c: "\<forall>xs :: ConversationIssue list list. mset (rev xs) = mset xs"
    by simp
  have v: "dict_summary (to_dict (analyze_async example_single (\<lambda>rs. rs) [example_conversation, other_conversation]))
       = Some \<lparr> conversations_with_issues = 2, average_severity = 6, total_issues_found = 3 \<rparr>"
    by code_simp
  from aggregate_independent_of_order [OF a b c, of example_single] a v show ?thesis
    by blast
qed

subsection \<open>Summary statistics\<close>

lemma guard_iff: "(all \<noteq> [] \<and> list_ex is_scored all) = (filter is_scored all \<noteq> [])"
  by (auto simp: list_ex_iff filter_empty_conv)

lemma scored_sum:
  "sum_list (map score_or_zero (filter is_scored xs))
     = (\<Sum>i\<leftarrow>filter is_scored xs. the (severity_score i))"
proof -
  have "map score_or_zero (filter is_scored xs) = map (\<lambda>i. the (severity_score i)) (filter is_scored xs)"
    by (rule map_cong) (auto simp: score_or_zero_def is_scored_def)
  then show ?thesis
    by (rule arg_cong [where f = sum_list])
qed

lemma take_sorted_top:
  fixes key :: "'a \<Rightarrow> int"
  assumes "sorted_wrt (\<lambda>a b. key b \<le> key a) xs"
  shows "sorted_wrt (\<lambda>a b. key b \<le> key a) (take n xs)
    \<and> (\<forall>x \<in> set (take n xs). \<forall>y \<in> set (drop n xs). key y \<le> key x)"
proof -
  have "sorted_wrt (\<lambda>a b. key b \<le> key a) (take n xs @ drop n xs)"
    using assms by simp
  then show ?thesis
    unfolding sorted_wrt_append by blast
qed

lemma top_offenders_of_props:
  "length (top_offenders_of all) = min 20 (length (filter is_scored all))
   \<and> sorted_wrt (\<lambda>a b. score_or_zero b \<le> score_or_zero a) (top_offenders_of all)
   \<and> mset (top_offenders_of all) \<subseteq># mset (filter is_scored all)
   \<and> (\<forall>x \<in> set (top_offenders_of all).
        \<forall>y \<in># mset (filter is_scored all) - mset (top_offenders_of all).
          score_or_zero y \<le> score_or_zero x)"
proof -
  let ?s = "sort_reverse score_or_zero (filter is_scored all)"
  have split: "mset (filter is_scored all) = mset (take 20 ?s) + mset (drop 20 ?s)"
    by (metis append_take_drop_id mset_append mset_sort_reverse)
  have srt: "sorted_wrt (\<lambda>a b. score_or_zero b \<le> score_or_zero a) ?s"
    by (rule sorted_sort_reverse)
  note top = take_sorted_top [OF srt, of 20]
  have 1: "length (top_offenders_of all) = min 20 (length (filter is_scored all))"
    by (simp add: top_offenders_of_def length_sort_reverse min.commute)
  have 2: "sorted_wrt (\<lambda>a b. score_or_zero b \<le> score_or_zero a) (top_offenders_of all)"
    using top by (simp add: top_offenders_of_def)
  have 3: "mset (top_offenders_of all) \<subseteq># mset (filter is_scored all)"
    unfolding top_offenders_of_def split by simp
  have rest: "mset (filter is_scored all) - mset (top_offenders_of all) = mset (drop 20 ?s)"
    unfolding top_offenders_of_def split by simp
  have 4: "\<forall>x \<in> set (top_offenders_of all).
        \<forall>y \<in># mset (filter is_scored all) - mset (top_offenders_of all).
          score_or_zero y \<le> score_or_zero x"
    unfolding rest using top by (simp add: top_offenders_of_def)
  from 1 2 3 4 show ?thesis by blast
qed

text \<open>
  C8, as stated, fails where no issue carries a score: the analysis of an empty list of
  conversations, and an analysis of the rule-based analyzer with one issue, serialize
  without summary and without top offenders.
\<close>

theorem no_scored_issue_no_summary:
  "all_issues (analyze_async example_single (\<lambda>rs. rs) []) = []
   \<and> dict_summary (to_dict (analyze_async example_single (\<lambda>rs. rs) [])) = None
   \<and> dict_top_offenders (to_dict (analyze_async example_single (\<lambda>rs. rs) [])) = None
   \<and> length (all_issues rule_based_analysis) = 1
   \<and> dict_summary (to_dict rule_based_analysis) = None
   \<and> dict_top_offenders (to_dict rule_based_analysis) = None"
  by code_simp

text \<open>
  C8, amended. When no issue carries a severity score (in particular when there is no
  issue), the serialization has neither a summary nor a top-offenders entry. When some
  issue carries a score, it has both: the number of distinct conversation ids among all
  issues, the mean score over the issues that carry one, the number of all issues, and
  a top-offenders list of at most 20 scored issues, non-increasing in score, none of
  whose members has a lower score than a scored issue left out.
\<close>

theorem to_dict_summary_statistics:
  "(filter is_scored (all_issues qa) = [] \<longrightarrow>
      dict_summary (to_dict qa) = None \<and> dict_top_offenders (to_dict qa) = None)
   \<and> (filter is_scored (all_issues qa) \<noteq> [] \<longrightarrow>
        (\<exists>s top. dict_summary (to_dict qa) = Some s \<and> dict_top_offenders (to_dict qa) = Some top
           \<and> conversations_with_issues s = card (conversation_id ` set (all_issues qa))
           \<and> average_severity s
               = of_int (\<Sum>i\<leftarrow>filter is_scored (all_issues qa). the (severity_score i))
                 / of_nat (length (filter is_scored (all_issues qa)))
           \<and> total_issues_found s = length (all_issues qa)
           \<and> length top = min 20 (length (filter is_scored (all_issues qa)))
           \<and> sorted_wrt (\<lambda>a b. score_or_zero b \<le> score_or_zero a) top
           \<and> mset top \<subseteq># mset (filter is_scored (all_issues qa))
           \<and> (\<forall>x \<in> set top. \<forall>y \<in># mset (filter is_scored (all_issues qa)) - mset top.
                 score_or_zero y \<le> score_or_zero x)))"
proof -
  let ?all = "all_issues qa"
  have absent: "dict_summary (to_dict qa) = None \<and> dict_top_offenders (to_dict qa) = None"
    if "filter is_scored ?all = []"
    using that by (simp add: to_dict_def Let_def guard_iff)
  have present: "\<exists>s top. dict_summary (to_dict qa) = Some s \<and> dict_top_offenders (to_dict qa) = Some top
           \<and> conversations_with_issues s = card (conversation_id ` set ?all)
           \<and> average_severity s
               = of_int (\<Sum>i\<leftarrow>filter is_scored ?all. the (severity_score i))
                 / of_nat (length (filter is_scored ?all))
           \<and> total_issues_found s = length ?all
           \<and> length top = min 20 (length (filter is_scored ?all))
           \<and> sorted_wrt (\<lambda>a b. score_or_zero b \<le> score_or_zero a) top
           \<and> mset top \<subseteq># mset (filter is_scored ?all)
           \<and> (\<forall>x \<in> set top. \<forall>y \<in># mset (filter is_scored ?all) - mset top.
                 score_or_zero y \<le> score_or_zero x)"
    if ne: "filter is_scored ?all \<noteq> []"
  proof -
    have s: "dict_summary (to_dict qa) = Some (summary_of ?all)"
      and t: "dict_top_offenders (to_dict qa) = Some (top_offenders_of ?all)"
      using ne by (simp_all add: to_dict_def Let_def guard_iff)
    have c: "conversations_with_issues (summary_of ?all) = card (conversation_id ` set ?all)"
      by (simp add: summary_of_def Let_def)
    have a: "average_severity (summary_of ?all)
        = of_int (\<Sum>i\<leftarrow>filter is_scored ?all. the (severity_score i))
          / of_nat (length (filter is_scored ?all))"
      using ne by (simp add: summary_of_def Let_def scored_sum)
    have n: "total_issues_found (summary_of ?all) = length ?all"
      by (simp add: summary_of_def Let_def)
    from s t c a n top_offenders_of_props [of ?all] show ?thesis
      by blast
  qed
  from absent present show ?thesis
    by blast
qed

text \<open>
  C8, amended, on the rule-based analysis (no scored issue) and on the analysis of the
  two example conversations (three scored issues).
\<close>

theorem to_dict_summary_statistics_witness:
  "filter is_scored (all_issues rule_based_analysis) = []
   \<and> dict_summary (to_dict rule_based_analysis) = None
   \<and> filter is_scored (all_issues
        (analyze_async example_single rev [example_conversation, other_conversation])) \<noteq> []
   \<and> map_option total_issues_found (dict_summary (to_dict
        (analyze_async example_single rev [example_conversation, other_conversation]))) = Some 3
   \<and> map_option length (dict_top_offenders (to_dict
        (analyze_async example_single rev [example_conversation, other_conversation]))) = Some 3"
proof -
  let ?qa = "analyze_async example_single rev [example_conversation, other_conversation]"
  have e: "filter is_scored (all_issues rule_based_analysis) = []"
    by code_simp
  have n: "filter is_scored (all_issues ?qa) \<noteq> []"
    by code_simp
  have l: "length (all_issues ?qa) = 3" "length (filter is_scored (all_issues ?qa)) = 3"
    by code_simp+
  from to_dict_summary_statistics [of rule_based_analysis] e
  have r: "dict_summary (to_dict rule_based_analysis) = None"
    by blast
  from to_dict_summary_statistics [of ?qa] n obtain s top where
    "dict_summary (to_dict ?qa) = Some s" "dict_top_offenders (to_dict ?qa) = Some top"
    "total_issues_found s = length (all_issues ?qa)"
    "length top = min 20 (length (filter is_scored (all_issues ?qa)))"
    by blast
  with l have "map_option total_issues_found (dict_summary (to_dict ?qa)) = Some 3"
    "map_option length (dict_top_offenders (to_dict ?qa)) = Some 3"
    by simp_all
  with e n r show ?thesis
    by blast
qed

section \<open>Properties of the admission gate\<close>

lemma count_list_update:
  "i < length xs \<Longrightarrow>
   length (filter P (xs[i := v])) + (if P (xs ! i) then 1 else 0)
     = length (filter P xs) + (if P v then 1 else 0)"
proof (induction xs arbitrary: i)
  case Nil
  then show ?case by simp
next
  case (Cons x xs)
  show ?case
  proof (cases i)
    case 0
    then show ?thesis by simp
  next
    case (Suc k)
    with Cons.prems have "k < length xs" by simp
    from Cons.IH [OF this] Suc show ?thesis by simp
  qed
qed

lemma slots_held_update:
  "i < length (phases g) \<Longrightarrow>
   slots_held (g\<lparr>phases := (phases g)[i := p]\<rparr>) + (if holds_slot (phases g ! i) then 1 else 0)
     = slots_held g + (if holds_slot p then 1 else 0)"
  by (simp add: slots_held_def count_list_update)

lemma step_keeps_slots:
  assumes "step a g = Some g'"
  shows "sem_value g' + slots_held g' = sem_value g + slots_held g
    \<and> length (phases g') = length (phases g)"
proof (cases a)
  case (Begin i hit)
  with assms slots_held_update [of i g "if hit then Finished else AwaitingSlot"] show ?thesis
    by (auto simp: slots_held_def split: if_splits)
next
  case (Acquire i)
  with assms slots_held_update [of i g HoldingSlot] show ?thesis
    by (auto simp: slots_held_def split: if_splits)
next
  case (Invoke i)
  with assms slots_held_update [of i g AwaitingJudge] show ?thesis
    by (auto simp: slots_held_def split: if_splits)
next
  case (Answer i ok)
  with assms slots_held_update [of i g Persisting] slots_held_update [of i g Finished] show ?thesis
    by (auto simp: slots_held_def split: if_splits)
next
  case (Leave i)
  with assms slots_held_update [of i g Finished] show ?thesis
    by (auto simp: slots_held_def split: if_splits)
qed

lemma run_keeps_slots:
  "run schedule g = Some g' \<Longrightarrow>
   sem_value g' + slots_held g' = sem_value g + slots_held g
   \<and> length (phases g') = length (phases g)"
proof (induction schedule arbitrary: g)
  case Nil
  then show ?case by simp
next
  case (Cons a as)
  then obtain g1 where s: "step a g = Some g1" and r: "run as g1 = Some g'"
    by (auto split: option.splits)
  from Cons.IH [OF r] step_keeps_slots [OF s] show ?case
    by simp
qed

lemma in_flight_le_slots_held: "in_flight g \<le> slots_held g"
proof -
  have "length (filter (\<lambda>p. p = AwaitingJudge) ps) \<le> length (filter holds_slot ps)" for ps
    by (induction ps) auto
  then show ?thesis
    by (simp add: in_flight_def slots_held_def)
qed

lemma slots_held_initial: "slots_held (initial k n) = 0"
  by (simp add: slots_held_def initial_def)

text \<open>
  C2, as stated, fails in its second half: the slot is held beyond the Judge call. With
  one slot and two tasks, after the first task's request is answered the slot is still
  taken while no request is in flight, and the second task cannot acquire it. In the
  trace of one fresh analysis the cache write lies between the acquire and the release.
\<close>

theorem slot_held_while_saving:
  "run [Begin 0 False, Begin 1 False, Acquire 0, Invoke 0, Answer 0 True] (initial 1 2)
     = Some \<lparr> sem_value = 0, phases = [Persisting, AwaitingSlot] \<rparr>
   \<and> in_flight \<lparr> sem_value = 0, phases = [Persisting, AwaitingSlot] \<rparr> = 0
   \<and> slots_held \<lparr> sem_value = 0, phases = [Persisting, AwaitingSlot] \<rparr> = 1
   \<and> step (Acquire 1) \<lparr> sem_value = 0, phases = [Persisting, AwaitingSlot] \<rparr> = None
   \<and> trace (snd (analyze_single_conversation answering_env True example_conversation empty_world))
     = [Log TRACE ''c1'', SemAcquire, Log TRACE ''c1'', JudgeInvoke ''c1'', Log TRACE ''c1'',
        CacheWrite ''c1'', Log DEBUG ''c1'', SemRelease]"
  by (simp add: initial_def eval_nat_numeral in_flight_def slots_held_def
      analyze_single_conversation_def DEFAULT_AI_MAX_RETRIES_def analysis_defs
      answering_env_def example_conversation_def empty_world_def)

text \<open>
  C2, amended. In every state that any interleaving of the tasks reaches from the start
  with \<open>max_concurrency\<close> slots and \<open>n\<close> tasks, whatever \<open>n\<close> is, the number of
  unanswered requests to the Judge is at most \<open>max_concurrency\<close>. The slots in use are
  exactly those of the tasks inside the \<^verbatim>\<open>async with\<close> block: building the prompt,
  awaiting the Judge, or saving and converting the answer.
\<close>

theorem in_flight_never_exceeds_max_concurrency:
  assumes "run schedule (initial max_concurrency n) = Some g"
  shows "in_flight g \<le> max_concurrency
    \<and> in_flight g \<le> slots_held g
    \<and> sem_value g + slots_held g = max_concurrency
    \<and> length (phases g) = n"
proof -
  from run_keeps_slots [OF assms]
  have "sem_value g + slots_held g = max_concurrency" and "length (phases g) = n"
    by (simp_all add: slots_held_initial) (simp_all add: initial_def)
  moreover have "in_flight g \<le> slots_held g"
    by (rule in_flight_le_slots_held)
  ultimately show ?thesis
    by simp
qed

text \<open>
  C2, amended, with one slot and three tasks: one task is answered from the cache, one
  awaits the Judge, and the third cannot acquire the slot.
\<close>

theorem in_flight_never_exceeds_max_concurrency_witness:
  "run [Begin 0 False, Begin 1 False, Begin 2 True, Acquire 1, Invoke 1] (initial 1 3)
     = Some \<lparr> sem_value = 0, phases = [AwaitingSlot, AwaitingJudge, Finished] \<rparr>
   \<and> in_flight \<lparr> sem_value = 0, phases = [AwaitingSlot, AwaitingJudge, Finished] \<rparr> \<le> 1
   \<and> run [Begin 0 False, Begin 1 False, Begin 2 True, Acquire 1, Invoke 1, Acquire 0] (initial 1 3)
     = None"
proof -
  have r: "run [Begin 0 False, Begin 1 False, Begin 2 True, Acquire 1, Invoke 1] (initial 1 3)
     = Some \<lparr> sem_value = 0, phases = [AwaitingSlot, AwaitingJudge, Finished] \<rparr>"
    by (simp add: initial_def eval_nat_numeral)
  have n: "run [Begin 0 False, Begin 1 False, Begin 2 True, Acquire 1, Invoke 1, Acquire 0] (initial 1 3)
     = None"
    by (simp add: initial_def eval_nat_numeral)
  from in_flight_never_exceeds_max_concurrency [OF r] r n show ?thesis
    by simp
qed

end
